theory Spec2Isabelle
  imports Complex_Main "HOL-Library.Monad_Syntax"
begin

section \<open>Numbers\<close>

text \<open>
  The program computes with JavaScript numbers. They are modelled as real numbers
  (rounding and overflow are idealised away) together with the value \<open>NaN\<close>, which the
  source produces when the sum over an empty slice is divided by the length of that
  slice (\<open>0 / 0\<close>). Arithmetic propagates \<open>NaN\<close>, and every comparison with \<open>NaN\<close> is
  false, as in the source language. No division of the program has a zero divisor with
  a nonzero dividend (the divisors are array lengths under sums over the same array,
  nonzero literals, or guarded). Infinite values, which the source language produces
  when a result overflows (the square of a sample of magnitude \<open>10\<^sup>2\<^sup>0\<^sup>0\<close>, say), are not
  modelled: a value that is finite in the model is finite in the source for samples in
  the nominal range [0,1], and statements about finiteness are made for such samples
  only.
\<close>

datatype number = Num real | NaN

fun nadd :: "number \<Rightarrow> number \<Rightarrow> number" where
  "nadd (Num a) (Num b) = Num (a + b)"
| "nadd _ _ = NaN"

fun nsub :: "number \<Rightarrow> number \<Rightarrow> number" where
  "nsub (Num a) (Num b) = Num (a - b)"
| "nsub _ _ = NaN"

fun nmul :: "number \<Rightarrow> number \<Rightarrow> number" where
  "nmul (Num a) (Num b) = Num (a * b)"
| "nmul _ _ = NaN"

text \<open>\<open>ndiv\<close> is only applied where the divisor is a nonzero literal or has been
  compared with zero beforehand.\<close>

fun ndiv :: "number \<Rightarrow> number \<Rightarrow> number" where
  "ndiv (Num a) (Num b) = Num (a / b)"
| "ndiv _ _ = NaN"

fun nmax :: "number \<Rightarrow> number \<Rightarrow> number" where
  "nmax (Num a) (Num b) = Num (max a b)"
| "nmax _ _ = NaN"

fun nmin :: "number \<Rightarrow> number \<Rightarrow> number" where
  "nmin (Num a) (Num b) = Num (min a b)"
| "nmin _ _ = NaN"

fun nsqrt :: "number \<Rightarrow> number" where
  "nsqrt (Num a) = (if a < 0 then NaN else Num (sqrt a))"
| "nsqrt NaN = NaN"

fun nabs :: "number \<Rightarrow> number" where
  "nabs (Num a) = Num \<bar>a\<bar>"
| "nabs NaN = NaN"

fun nlt :: "number \<Rightarrow> number \<Rightarrow> bool" where
  "nlt (Num a) (Num b) = (a < b)"
| "nlt _ _ = False"

fun ngt :: "number \<Rightarrow> number \<Rightarrow> bool" where
  "ngt (Num a) (Num b) = (a > b)"
| "ngt _ _ = False"

fun isFinite :: "number \<Rightarrow> bool" where
  "isFinite (Num a) = True"
| "isFinite NaN = False"

fun inRange :: "real \<Rightarrow> real \<Rightarrow> number \<Rightarrow> bool" where
  "inRange lo hi (Num a) = (lo \<le> a \<and> a \<le> hi)"
| "inRange lo hi NaN = False"


section \<open>Arrays\<close>

text \<open>\<open>xs.slice(a, b)\<close> for \<open>0 \<le> a \<le> b\<close>, \<open>xs.slice(a)\<close> and \<open>xs.slice(-n)\<close>; all three
  clip at the ends of the array.\<close>

definition slice :: "'a list \<Rightarrow> nat \<Rightarrow> nat \<Rightarrow> 'a list" where
  "slice xs a b = take (b - a) (drop a xs)"

definition sliceFrom :: "'a list \<Rightarrow> nat \<Rightarrow> 'a list" where
  "sliceFrom xs a = drop a xs"

definition sliceLast :: "'a list \<Rightarrow> nat \<Rightarrow> 'a list" where
  "sliceLast xs n = drop (length xs - n) xs"

text \<open>\<open>xs.reduce((sum, val) => sum + f(val), 0) / xs.length\<close> over an array of finite
  samples: \<open>0 / 0\<close> on the empty array.\<close>

definition meanOf :: "(real \<Rightarrow> real) \<Rightarrow> real list \<Rightarrow> number" where
  "meanOf f xs =
     (if length xs = 0 then NaN
      else Num (foldl (\<lambda>sum val. sum + f val) 0 xs / real (length xs)))"

definition mean :: "real list \<Rightarrow> number" where
  "mean xs = meanOf (\<lambda>val. val) xs"

text \<open>The same over an array of numbers that may hold \<open>NaN\<close> (the rolling histories).\<close>

definition nmeanOf :: "(number \<Rightarrow> number) \<Rightarrow> number list \<Rightarrow> number" where
  "nmeanOf f xs =
     (if length xs = 0 then NaN
      else ndiv (foldl (\<lambda>sum val. nadd sum (f val)) (Num 0) xs) (Num (real (length xs))))"

definition nmean :: "number list \<Rightarrow> number" where
  "nmean xs = nmeanOf (\<lambda>val. val) xs"

section \<open>Music Brain\<close>

datatype Mood = calm | energetic | dramatic | mysterious | joyful

datatype Genre = electronic | acoustic | classical | rock | ambient | voice | mixed

record 'n AudioFeatures =
  bass :: 'n
  mid :: 'n
  treble :: 'n
  rhythm :: 'n
  melody :: 'n
  harmony :: 'n
  dynamics :: 'n
  energy :: 'n
  tempo :: 'n
  mood :: Mood

record 'n MusicContext =
  beatDrop :: bool
  vocalPresence :: bool
  instrumentalDensity :: 'n
  emotionalIntensity :: 'n
  genreHint :: Genre

record MusicBrain =
  previousFeatures :: "number AudioFeatures option"
  beatHistory :: "number list"
  energyHistory :: "number list"
  time :: nat

definition initialMusicBrain :: MusicBrain where
  "initialMusicBrain =
     \<lparr>previousFeatures = None, beatHistory = [], energyHistory = [], time = 0\<rparr>"

definition extractBass :: "real list \<Rightarrow> number" where
  "extractBass audioData = mean (slice audioData 0 32)"

definition extractMid :: "real list \<Rightarrow> number" where
  "extractMid audioData = mean (slice audioData 32 96)"

definition extractTreble :: "real list \<Rightarrow> number" where
  "extractTreble audioData = mean (sliceFrom audioData 96)"

definition calculateConsistency :: "number list \<Rightarrow> number" where
  "calculateConsistency values =
     (if length values < 2 then Num 0
      else
        let mean = nmean values;
            variance = nmeanOf (\<lambda>val. nmul (nsub val mean) (nsub val mean)) values
        in nmax (Num 0) (nsub (Num 1) (nsqrt variance)))"

definition analyzeRhythm :: "MusicBrain \<Rightarrow> number \<Rightarrow> number \<Rightarrow> number" where
  "analyzeRhythm st b m =
     (let rhythmicStrength = nmax (nmul b (Num 1.2)) (nmul m (Num 0.8))
      in if length (beatHistory st) > 4 then
           let recentBeats = sliceLast (beatHistory st) 4;
               consistency = calculateConsistency recentBeats
           in nmul rhythmicStrength (nadd (Num 1) (nmul consistency (Num 0.5)))
         else rhythmicStrength)"

definition analyzeMelody :: "MusicBrain \<Rightarrow> number \<Rightarrow> number \<Rightarrow> number" where
  "analyzeMelody st m t =
     (let melodicContent = nadd (nmul m (Num 0.6)) (nmul t (Num 0.8))
      in case previousFeatures st of
           Some p \<Rightarrow>
             let movement =
                   nabs (nsub melodicContent
                     (nadd (nmul (mid p) (Num 0.6)) (nmul (treble p) (Num 0.8))))
             in nmin (Num 1) (nadd melodicContent (nmul movement (Num 0.3)))
         | None \<Rightarrow> melodicContent)"

text \<open>The loop of \<open>calculateCorrelation\<close> over the indices of \<open>arr1\<close>; the state is
  \<open>(numerator, denominator1, denominator2)\<close>.\<close>

definition correlationStep ::
  "real list \<Rightarrow> real list \<Rightarrow> number \<Rightarrow> number \<Rightarrow> nat \<Rightarrow>
   number \<times> number \<times> number \<Rightarrow> number \<times> number \<times> number" where
  "correlationStep arr1 arr2 mean1 mean2 i acc =
     (case acc of (numerator, denominator1, denominator2) \<Rightarrow>
        let diff1 = nsub (Num (arr1 ! i)) mean1;
            diff2 = nsub (Num (arr2 ! i)) mean2
        in (nadd numerator (nmul diff1 diff2),
            nadd denominator1 (nmul diff1 diff1),
            nadd denominator2 (nmul diff2 diff2)))"

definition calculateCorrelation :: "real list \<Rightarrow> real list \<Rightarrow> number" where
  "calculateCorrelation arr1 arr2 =
     (if length arr1 \<noteq> length arr2 then Num 0
      else
        let mean1 = mean arr1;
            mean2 = mean arr2;
            acc = fold (correlationStep arr1 arr2 mean1 mean2) [0..<length arr1]
                    (Num 0, Num 0, Num 0);
            numerator = fst acc;
            denominator1 = fst (snd acc);
            denominator2 = snd (snd acc);
            denominator = nsqrt (nmul denominator1 denominator2)
        in if denominator = Num 0 then Num 0 else ndiv numerator denominator)"

definition analyzeHarmony :: "real list \<Rightarrow> number" where
  "analyzeHarmony audioData =
     (let segments = 8;
          segmentSize = length audioData div segments;
          harmonyScore =
            fold (\<lambda>i score.
                    let segment1 = slice audioData (i * segmentSize) ((i + 1) * segmentSize);
                        segment2 = slice audioData ((i + 1) * segmentSize) ((i + 2) * segmentSize);
                        correlation = calculateCorrelation segment1 segment2
                    in nadd score correlation)
              [0..<segments - 1] (Num 0)
      in ndiv harmonyScore (Num (real (segments - 1))))"

definition analyzeDynamics :: "real list \<Rightarrow> number" where
  "analyzeDynamics audioData =
     (let average = mean audioData;
          variance = nmeanOf (\<lambda>val. nmul (nsub val average) (nsub val average))
                       (map Num audioData)
      in nmin (Num 1) (nmul (nsqrt variance) (Num 2)))"

definition calculateEnergy :: "real list \<Rightarrow> number" where
  "calculateEnergy audioData =
     (let rms = nsqrt (meanOf (\<lambda>val. val * val) audioData)
      in nmin (Num 1) (nmul rms (Num 2)))"

definition estimateTempo :: "MusicBrain \<Rightarrow> number \<Rightarrow> number" where
  "estimateTempo st r =
     (if length (beatHistory st) < 8 then Num 120
      else
        let recentBeats = sliceLast (beatHistory st) 8;
            avgBeatStrength = nmean recentBeats
        in nadd (Num 60) (nmul avgBeatStrength (Num 120)))"

definition determineMood :: "number \<Rightarrow> number \<Rightarrow> number \<Rightarrow> Mood" where
  "determineMood e h d =
     (if nlt e (Num 0.3) \<and> ngt h (Num 0.6) then calm
      else if ngt e (Num 0.7) \<and> ngt d (Num 0.5) then energetic
      else if nlt h (Num 0.4) \<and> ngt d (Num 0.6) then dramatic
      else if nlt e (Num 0.5) \<and> nlt h (Num 0.5) then mysterious
      else joyful)"

definition detectBeatDrop :: "MusicBrain \<Rightarrow> number AudioFeatures \<Rightarrow> bool" where
  "detectBeatDrop st features =
     (case previousFeatures st of
        None \<Rightarrow> False
      | Some p \<Rightarrow>
          let bassIncrease = nsub (bass features) (bass p);
              energyIncrease = nsub (energy features) (energy p)
          in ngt bassIncrease (Num 0.3) \<and> ngt energyIncrease (Num 0.2))"

definition detectVocalPresence :: "real list \<Rightarrow> bool" where
  "detectVocalPresence audioData =
     (let vocalLow = slice audioData 8 24;
          vocalHigh = slice audioData 80 120;
          vocalScore = ndiv (nadd (mean vocalLow) (mean vocalHigh)) (Num 2)
      in ngt vocalScore (Num 0.4))"

definition calculateInstrumentalDensity :: "real list \<Rightarrow> number" where
  "calculateInstrumentalDensity audioData =
     (let nonZeroFreqs = length (filter (\<lambda>val. val > 0.1) audioData)
      in if length audioData = 0 then NaN
         else Num (real nonZeroFreqs / real (length audioData)))"

definition detectGenre :: "number AudioFeatures \<Rightarrow> Genre" where
  "detectGenre features =
     (if ngt (bass features) (Num 0.7) \<and> ngt (energy features) (Num 0.6) then electronic
      else if ngt (harmony features) (Num 0.7) \<and> nlt (energy features) (Num 0.4) then classical
      else if ngt (rhythm features) (Num 0.6) \<and> ngt (bass features) (Num 0.5) then rock
      else if nlt (energy features) (Num 0.3) \<and> ngt (harmony features) (Num 0.5) then ambient
      else if ngt (mid features) (Num 0.6) \<and> ngt (melody features) (Num 0.5) then voice
      else acoustic)"

definition analyzeContext ::
  "MusicBrain \<Rightarrow> number AudioFeatures \<Rightarrow> real list \<Rightarrow> number MusicContext" where
  "analyzeContext st features audioData =
     \<lparr>beatDrop = detectBeatDrop st features,
      vocalPresence = detectVocalPresence audioData,
      instrumentalDensity = calculateInstrumentalDensity audioData,
      emotionalIntensity =
        ndiv (nadd (nadd (energy features) (dynamics features)) (harmony features)) (Num 3),
      genreHint = detectGenre features\<rparr>"

text \<open>\<open>push\<close> followed by a \<open>shift\<close> when the array has grown beyond \<open>cap\<close>.\<close>

definition pushCapped :: "nat \<Rightarrow> 'a list \<Rightarrow> 'a \<Rightarrow> 'a list" where
  "pushCapped cap xs x = (let ys = xs @ [x] in if length ys > cap then tl ys else ys)"

definition updateHistory :: "MusicBrain \<Rightarrow> number \<Rightarrow> number \<Rightarrow> MusicBrain" where
  "updateHistory st r e =
     st\<lparr>beatHistory := pushCapped 20 (beatHistory st) r,
        energyHistory := pushCapped 20 (energyHistory st) e\<rparr>"

definition computeFeatures :: "MusicBrain \<Rightarrow> real list \<Rightarrow> number AudioFeatures" where
  "computeFeatures st audioData =
     (let b = extractBass audioData;
          m = extractMid audioData;
          t = extractTreble audioData;
          r = analyzeRhythm st b m;
          mel = analyzeMelody st m t;
          h = analyzeHarmony audioData;
          d = analyzeDynamics audioData;
          e = calculateEnergy audioData;
          tmp = estimateTempo st r;
          md = determineMood e h d
      in \<lparr>bass = b, mid = m, treble = t, rhythm = r, melody = mel, harmony = h,
          dynamics = d, energy = e, tempo = tmp, mood = md\<rparr>)"

text \<open>\<open>analyzeAudio\<close> returns the features and the context, and leaves the extractor in
  its next state.\<close>

definition analyzeAudio ::
  "MusicBrain \<Rightarrow> real list \<Rightarrow> (number AudioFeatures \<times> number MusicContext) \<times> MusicBrain" where
  "analyzeAudio st0 audioData =
     (let st = st0\<lparr>time := time st0 + 1\<rparr>;
          features = computeFeatures st audioData;
          context = analyzeContext st features audioData;
          st' = updateHistory (st\<lparr>previousFeatures := Some features\<rparr>)
                  (rhythm features) (energy features)
      in ((features, context), st'))"


text \<open>Feeding a sequence of frames to one extractor, tick after tick: the results of all
  ticks and the state left behind.\<close>

fun analyzeFrames ::
  "MusicBrain \<Rightarrow> real list list \<Rightarrow>
   (number AudioFeatures \<times> number MusicContext) list \<times> MusicBrain" where
  "analyzeFrames st [] = ([], st)"
| "analyzeFrames st (audioData # rest) =
     (let (result, st1) = analyzeAudio st audioData;
          (results, st2) = analyzeFrames st1 rest
      in (result # results, st2))"


text \<open>A frame of any length whose samples are in the nominal range.\<close>

definition samplesInRange :: "real list \<Rightarrow> bool" where
  "samplesInRange audioData \<longleftrightarrow> list_all (\<lambda>val. 0 \<le> val \<and> val \<le> 1) audioData"

text \<open>The value \<open>calculateCorrelation\<close> computes on two non-empty arrays of equal length,
  written with sums.\<close>

definition pearson :: "real list \<Rightarrow> real list \<Rightarrow> real" where
  "pearson a b =
     (let m1 = sum_list a / real (length a);
          m2 = sum_list b / real (length b);
          n = (\<Sum>i\<leftarrow>[0..<length a]. (a ! i - m1) * (b ! i - m2));
          d1 = (\<Sum>i\<leftarrow>[0..<length a]. (a ! i - m1) * (a ! i - m1));
          d2 = (\<Sum>i\<leftarrow>[0..<length a]. (b ! i - m2) * (b ! i - m2))
      in if sqrt (d1 * d2) = 0 then 0 else n / sqrt (d1 * d2))"

section \<open>Colour strings\<close>

text \<open>
  Every colour of a palette is a string built by the template
  \<^verbatim>\<open>hsl(${h}, ${s}%, ${l}%)\<close>. The palette model keeps the three interpolated numbers,
  and \<open>hslString\<close> gives the text, which is what \<open>parseHSL\<close> reads.

  \<open>numberToString\<close> is the decimal notation of a number: an optional sign, the digits of
  the integer part and, for a number that is not an integer, a point and fractional
  digits (at most 17 of them here; the source language prints the shortest digits that
  identify the floating-point value). Exponent notation, which the source language uses
  from \<open>10\<^sup>2\<^sup>1\<close> on and below \<open>10\<^sup>-\<^sup>6\<close>, is not modelled: the channels of a palette stay
  far below the first, and under the second either notation has a character that is not
  a digit.
\<close>

datatype Color = HSL (hue: real) (sat: real) (light: real)

definition digitChar :: "nat \<Rightarrow> char" where
  "digitChar d = ''0123456789'' ! d"

function natToString :: "nat \<Rightarrow> string" where
  "natToString n =
     (if n < 10 then [digitChar n] else natToString (n div 10) @ [digitChar (n mod 10)])"
  by pat_completeness auto
termination
  by (relation "measure (\<lambda>n. n)") auto

declare natToString.simps [simp del]

fun fracDigits :: "nat \<Rightarrow> real \<Rightarrow> string" where
  "fracDigits 0 x = []"
| "fracDigits (Suc k) x =
     (let d = nat \<lfloor>x * 10\<rfloor>
      in digitChar d # (if x * 10 = real d then [] else fracDigits k (x * 10 - real d)))"

definition unsignedToString :: "real \<Rightarrow> string" where
  "unsignedToString x =
     natToString (nat \<lfloor>x\<rfloor>) @
     (if x = of_int \<lfloor>x\<rfloor> then [] else CHR ''.'' # fracDigits 17 (x - of_int \<lfloor>x\<rfloor>))"

definition numberToString :: "real \<Rightarrow> string" where
  "numberToString x =
     (if x < 0 then CHR ''-'' # unsignedToString (- x) else unsignedToString x)"

definition template :: "string \<Rightarrow> string \<Rightarrow> string \<Rightarrow> string" where
  "template a b c = ''hsl('' @ a @ '', '' @ b @ ''%, '' @ c @ ''%)''"

definition hslString :: "Color \<Rightarrow> string" where
  "hslString c =
     template (numberToString (hue c)) (numberToString (sat c)) (numberToString (light c))"

text \<open>The regular expression \<^verbatim>\<open>/hsl\((\d+),\s*(\d+)%,\s*(\d+)%\)/\<close>. A digit run is
  always followed by a character that is not a digit, and white space by a digit, so
  the longest run is the only one that can match.\<close>

definition isDigit :: "char \<Rightarrow> bool" where
  "isDigit c \<longleftrightarrow> c \<in> set ''0123456789''"

text \<open>The characters of a number's text.\<close>

definition numChar :: "char \<Rightarrow> bool" where
  "numChar c \<longleftrightarrow> isDigit c \<or> c = CHR ''-'' \<or> c = CHR ''.''"

definition isSpace :: "char \<Rightarrow> bool" where
  "isSpace c \<longleftrightarrow> c \<in> {CHR '' '', CHR 0x09, CHR 0x0A, CHR 0x0B, CHR 0x0C, CHR 0x0D, CHR 0xA0}"

fun stripPrefix :: "string \<Rightarrow> string \<Rightarrow> string option" where
  "stripPrefix [] s = Some s"
| "stripPrefix (p # ps) [] = None"
| "stripPrefix (p # ps) (c # cs) = (if p = c then stripPrefix ps cs else None)"

definition digitRun :: "string \<Rightarrow> (string \<times> string) option" where
  "digitRun s =
     (let ds = takeWhile isDigit s
      in if ds = [] then None else Some (ds, dropWhile isDigit s))"

definition skipSpaces :: "string \<Rightarrow> string" where
  "skipSpaces s = dropWhile isSpace s"

definition matchAt :: "string \<Rightarrow> (string \<times> string \<times> string) option" where
  "matchAt s =
     do {
       s1 \<leftarrow> stripPrefix ''hsl('' s;
       (g1, s2) \<leftarrow> digitRun s1;
       s3 \<leftarrow> stripPrefix '','' s2;
       (g2, s4) \<leftarrow> digitRun (skipSpaces s3);
       s5 \<leftarrow> stripPrefix ''%,'' s4;
       (g3, s6) \<leftarrow> digitRun (skipSpaces s5);
       s7 \<leftarrow> stripPrefix ''%)'' s6;
       Some (g1, g2, g3)
     }"

text \<open>\<open>String.prototype.match\<close> tries every start position from the left.\<close>

fun matchHSL :: "string \<Rightarrow> (string \<times> string \<times> string) option" where
  "matchHSL [] = matchAt []"
| "matchHSL (c # cs) =
     (case matchAt (c # cs) of Some m \<Rightarrow> Some m | None \<Rightarrow> matchHSL cs)"

definition digitValue :: "char \<Rightarrow> nat" where
  "digitValue c = of_char c - 48"

definition parseInt :: "string \<Rightarrow> real" where
  "parseInt ds = real (foldl (\<lambda>n c. 10 * n + digitValue c) 0 ds)"

text \<open>\<open>parseHSL\<close> returns \<open>{h, s, l}\<close>; the triple is written as a \<open>Color\<close>.\<close>

definition parseHSL :: "string \<Rightarrow> Color" where
  "parseHSL hslStr =
     (case matchHSL hslStr of
        None \<Rightarrow> HSL 0 0 0
      | Some (g1, g2, g3) \<Rightarrow> HSL (parseInt g1) (parseInt g2) (parseInt g3))"

text \<open>A channel whose text is a digit run: a natural number.\<close>

definition isNatural :: "real \<Rightarrow> bool" where
  "isNatural x \<longleftrightarrow> 0 \<le> x \<and> x = of_int \<lfloor>x\<rfloor>"

definition digitsOnly :: "Color \<Rightarrow> bool" where
  "digitsOnly c \<longleftrightarrow> isNatural (hue c) \<and> isNatural (sat c) \<and> isNatural (light c)"

section \<open>Color Brain\<close>

datatype Temperature = warm | cool | neutral

record ColorMood =
  name :: string
  temperature :: Temperature
  saturation :: real
  brightness :: real
  contrast :: real

record ColorPalette =
  primary :: Color
  secondary :: Color
  accent :: Color
  background :: Color
  glow :: Color
  particles :: "Color list"

record ColorBrain =
  colorHistory :: "ColorPalette list"
  transitionSpeed :: real

definition initialColorBrain :: ColorBrain where
  "initialColorBrain = \<lparr>colorHistory = [], transitionSpeed = 0.1\<rparr>"

text \<open>The values that the calls of \<open>Math.random()\<close> return during one call of
  \<open>generatePalette\<close>, in the order of the calls.\<close>

type_synonym random = "nat \<Rightarrow> real"

text \<open>The remainder \<open>x % m\<close> for a positive \<open>m\<close>: it has the sign of \<open>x\<close>.\<close>

definition jsMod :: "real \<Rightarrow> real \<Rightarrow> real" where
  "jsMod x m =
     (if 0 \<le> x then x - m * of_int \<lfloor>x / m\<rfloor> else - (- x - m * of_int \<lfloor>- x / m\<rfloor>))"

fun moodString :: "Mood \<Rightarrow> string" where
  "moodString calm = ''calm''"
| "moodString energetic = ''energetic''"
| "moodString dramatic = ''dramatic''"
| "moodString mysterious = ''mysterious''"
| "moodString joyful = ''joyful''"

definition getMoodName :: "Mood \<Rightarrow> real \<Rightarrow> real \<Rightarrow> string" where
  "getMoodName md e h =
     (let intensity = (if e > 0.6 then ''intense'' else if e > 0.3 then ''moderate'' else ''gentle'');
          harmonyLevel = (if h > 0.6 then ''harmonious'' else if h > 0.3 then ''balanced'' else ''chaotic'')
      in intensity @ ''-'' @ moodString md @ ''-'' @ harmonyLevel)"

definition analyzeMood :: "real AudioFeatures \<Rightarrow> real MusicContext \<Rightarrow> ColorMood" where
  "analyzeMood features context =
     (let t0 = neutral;
          t1 = (if bass features > 0.6 \<or> genreHint context = electronic then cool else t0);
          t2 = (if harmony features > 0.6 \<or> genreHint context = acoustic then warm else t1);
          t3 = (if mood features = mysterious \<or> mood features = dramatic then cool else t2)
      in \<lparr>name = getMoodName (mood features) (energy features) (harmony features),
          temperature = t3,
          saturation = min 100 (40 + energy features * 60 + dynamics features * 30),
          brightness = min 100 (30 + treble features * 40 + emotionalIntensity context * 30),
          contrast = min 100 (20 + dynamics features * 50 + energy features * 30)\<rparr>)"

definition generateParticleColors ::
  "random \<Rightarrow> real \<Rightarrow> real \<Rightarrow> real \<Rightarrow> real AudioFeatures \<Rightarrow> Color list" where
  "generateParticleColors rnd baseHue satur lightness features =
     (let particleCount = \<lfloor>3 + energy features * 5\<rfloor>
      in map (\<lambda>i.
            let hueShift = (360 / of_int particleCount) * real i;
                particleHue = jsMod (baseHue + hueShift) 360;
                particleSat = satur + (rnd (2 * i) - 0.5) * 30;
                particleLight = lightness + (rnd (2 * i + 1) - 0.5) * 40
            in HSL particleHue (max 0 (min 100 particleSat)) (max 10 (min 90 particleLight)))
          [0..<nat particleCount])"

definition baseHueOf :: "real AudioFeatures \<Rightarrow> real MusicContext \<Rightarrow> real" where
  "baseHueOf features context =
     (case genreHint context of
        electronic \<Rightarrow> 240 + bass features * 60
      | acoustic \<Rightarrow> 30 + harmony features * 60
      | classical \<Rightarrow> 200 + harmony features * 80
      | rock \<Rightarrow> 0 + energy features * 60
      | ambient \<Rightarrow> 180 + mid features * 120
      | voice \<Rightarrow> (if vocalPresence context then 45 + emotionalIntensity context * 90 else 200)
      | mixed \<Rightarrow> bass features * 120 + treble features * 240)"

definition createBasePalette ::
  "random \<Rightarrow> real AudioFeatures \<Rightarrow> real MusicContext \<Rightarrow> ColorMood \<Rightarrow> ColorPalette" where
  "createBasePalette rnd features context md =
     (let baseHue = jsMod (baseHueOf features context) 360;
          primaryHue = baseHue;
          secondaryHue = jsMod (baseHue + 120) 360;
          accentHue = jsMod (baseHue + 240) 360;
          backgroundHue = jsMod (baseHue + 180) 360;
          satur = saturation md;
          lightness = brightness md
      in \<lparr>primary = HSL primaryHue satur lightness,
          secondary = HSL secondaryHue (satur * 0.8) (lightness * 0.9),
          accent = HSL accentHue (satur * 1.2) (lightness * 1.1),
          background = HSL backgroundHue (satur * 0.3) (lightness * 0.2),
          glow = HSL primaryHue (satur * 1.5) (lightness * 1.3),
          particles = generateParticleColors rnd baseHue satur lightness features\<rparr>)"

definition intensify :: "real \<Rightarrow> Color \<Rightarrow> Color" where
  "intensify factor color =
     (let hsl = parseHSL (hslString color)
      in HSL (hue hsl) (min 100 (sat hsl * factor)) (min 90 (light hsl * factor)))"

definition intensifyPalette :: "ColorPalette \<Rightarrow> real \<Rightarrow> ColorPalette" where
  "intensifyPalette palette factor =
     palette\<lparr>primary := intensify factor (primary palette),
             accent := intensify factor (accent palette),
             glow := intensify factor (glow palette),
             particles := map (intensify factor) (particles palette)\<rparr>"

definition shiftTowardsWarmth :: "real \<Rightarrow> real \<Rightarrow> real" where
  "shiftTowardsWarmth h amount =
     (let warmHues = [0, 30, 60];
          closestWarmHue =
            foldl (\<lambda>closest warmHue.
                     let distance1 = \<bar>h - closest\<bar>;
                         distance2 = \<bar>h - warmHue\<bar>
                     in if distance2 < distance1 then warmHue else closest)
              (hd warmHues) (tl warmHues);
          shift = (closestWarmHue - h) * amount
      in jsMod (h + shift + 360) 360)"

definition warmify :: "real \<Rightarrow> Color \<Rightarrow> Color" where
  "warmify amount color =
     (let hsl = parseHSL (hslString color);
          warmerHue = shiftTowardsWarmth (hue hsl) amount
      in HSL warmerHue (sat hsl) (light hsl))"

definition addWarmth :: "ColorPalette \<Rightarrow> real \<Rightarrow> ColorPalette" where
  "addWarmth palette amount =
     palette\<lparr>primary := warmify amount (primary palette),
             secondary := warmify amount (secondary palette),
             glow := warmify amount (glow palette)\<rparr>"

definition addComplexity :: "random \<Rightarrow> Color list \<Rightarrow> Color list" where
  "addComplexity rnd ps =
     (let additionalCount = min 5 (length ps div 2)
      in ps @ map (\<lambda>i.
                let baseColor = ps ! (i mod length ps);
                    hsl = parseHSL (hslString baseColor)
                in HSL (jsMod (hue hsl + (rnd i - 0.5) * 60) 360) (sat hsl) (light hsl))
              [0..<additionalCount])"

definition adjust :: "real \<Rightarrow> Color \<Rightarrow> Color" where
  "adjust intensity color =
     (let hsl = parseHSL (hslString color);
          newSaturation = min 100 (sat hsl * (1 + intensity * 0.5))
      in HSL (hue hsl) newSaturation (light hsl))"

definition adjustSaturation :: "ColorPalette \<Rightarrow> real \<Rightarrow> ColorPalette" where
  "adjustSaturation palette intensity =
     palette\<lparr>primary := adjust intensity (primary palette),
             secondary := adjust intensity (secondary palette),
             accent := adjust intensity (accent palette),
             particles := map (adjust intensity) (particles palette)\<rparr>"

definition refineForContext ::
  "random \<Rightarrow> ColorPalette \<Rightarrow> real MusicContext \<Rightarrow> ColorPalette" where
  "refineForContext rnd palette context =
     (let p0 = palette;
          p1 = (if beatDrop context then intensifyPalette p0 1.5 else p0);
          p2 = (if vocalPresence context then addWarmth p1 0.3 else p1);
          p3 = (if instrumentalDensity context > 0.7
                then p2\<lparr>particles := addComplexity rnd (particles p2)\<rparr> else p2);
          p4 = (if emotionalIntensity context > 0.8
                then adjustSaturation p3 (emotionalIntensity context) else p3)
      in p4)"

definition interpolateHue :: "real \<Rightarrow> real \<Rightarrow> real \<Rightarrow> real" where
  "interpolateHue h1 h2 t =
     (let diff = jsMod (h2 - h1 + 180) 360 - 180
      in jsMod (h1 + diff * t + 360) 360)"

definition blend :: "real \<Rightarrow> Color \<Rightarrow> Color \<Rightarrow> Color" where
  "blend speed color1 color2 =
     (let hsl1 = parseHSL (hslString color1);
          hsl2 = parseHSL (hslString color2)
      in HSL (interpolateHue (hue hsl1) (hue hsl2) speed)
             (sat hsl1 + (sat hsl2 - sat hsl1) * speed)
             (light hsl1 + (light hsl2 - light hsl1) * speed))"

definition smoothTransition :: "ColorBrain \<Rightarrow> ColorPalette \<Rightarrow> ColorPalette" where
  "smoothTransition st newPalette =
     (if length (colorHistory st) = 0 then newPalette
      else
        let lastPalette = colorHistory st ! (length (colorHistory st) - 1);
            speed = transitionSpeed st
        in \<lparr>primary = blend speed (primary lastPalette) (primary newPalette),
            secondary = blend speed (secondary lastPalette) (secondary newPalette),
            accent = blend speed (accent lastPalette) (accent newPalette),
            background = blend speed (background lastPalette) (background newPalette),
            glow = blend speed (glow lastPalette) (glow newPalette),
            particles =
              map (\<lambda>i. if i < length (particles lastPalette)
                        then blend speed (particles lastPalette ! i) (particles newPalette ! i)
                        else particles newPalette ! i)
                [0..<length (particles newPalette)]\<rparr>)"

text \<open>\<open>updateHistory\<close> of the class \<open>ColorBrain\<close>.\<close>

definition ColorBrain_updateHistory :: "ColorBrain \<Rightarrow> ColorPalette \<Rightarrow> ColorBrain" where
  "ColorBrain_updateHistory st palette =
     st\<lparr>colorHistory := pushCapped 10 (colorHistory st) palette\<rparr>"

definition setTransitionSpeed :: "ColorBrain \<Rightarrow> real \<Rightarrow> ColorBrain" where
  "setTransitionSpeed st speed = st\<lparr>transitionSpeed := max 0.01 (min 1 speed)\<rparr>"

text \<open>The palette before smoothing. \<open>generateParticleColors\<close> draws two random numbers
  for each particle, and the refinement continues with the numbers after those.\<close>

definition rawPalette :: "random \<Rightarrow> real AudioFeatures \<Rightarrow> real MusicContext \<Rightarrow> ColorPalette" where
  "rawPalette rnd features context =
     (let md = analyzeMood features context;
          basePalette = createBasePalette rnd features context md;
          refinedPalette =
            refineForContext (\<lambda>k. rnd (2 * length (particles basePalette) + k))
              basePalette context
      in refinedPalette)"

definition generatePalette ::
  "random \<Rightarrow> ColorBrain \<Rightarrow> real AudioFeatures \<Rightarrow> real MusicContext \<Rightarrow>
   ColorPalette \<times> ColorBrain" where
  "generatePalette rnd st features context =
     (let refinedPalette = rawPalette rnd features context;
          finalPalette = smoothTransition st refinedPalette
      in (finalPalette, ColorBrain_updateHistory st finalPalette))"

text \<open>A sequence of calls on one palette generator: the palettes returned and the state
  left behind.\<close>

datatype ColorBrainCall =
  GeneratePalette random "real AudioFeatures" "real MusicContext"
| SetTransitionSpeed real

fun callColorBrain :: "ColorBrain \<Rightarrow> ColorBrainCall list \<Rightarrow> ColorPalette list \<times> ColorBrain" where
  "callColorBrain st [] = ([], st)"
| "callColorBrain st (GeneratePalette rnd features context # rest) =
     (let (palette, st1) = generatePalette rnd st features context;
          (palettes, st2) = callColorBrain st1 rest
      in (palette # palettes, st2))"
| "callColorBrain st (SetTransitionSpeed speed # rest) =
     callColorBrain (setTransitionSpeed st speed) rest"






text \<open>Inputs used below: a random source that returns the same number at every call, the
  features and the context of Scenario B, and those of a uniform frame of samples 0.05
  with its unsmoothed palette and the palette the smoothing makes of it.\<close>

definition pinnedRandom :: "real \<Rightarrow> random" where
  "pinnedRandom v k = v"

definition scenarioB_features :: "real AudioFeatures" where
  "scenarioB_features =
     \<lparr>bass = 1, mid = 1, treble = 1, rhythm = 1.2, melody = 1.4, harmony = 0,
      dynamics = 0, energy = 1, tempo = 120, mood = joyful\<rparr>"

definition scenarioB_context :: "real MusicContext" where
  "scenarioB_context =
     \<lparr>beatDrop = False, vocalPresence = True, instrumentalDensity = 1,
      emotionalIntensity = 1 / 3, genreHint = electronic\<rparr>"

definition quiet_features :: "real AudioFeatures" where
  "quiet_features =
     \<lparr>bass = 0.05, mid = 0.05, treble = 0.05, rhythm = 0.06, melody = 0.07, harmony = 0,
      dynamics = 0, energy = 0.1, tempo = 120, mood = mysterious\<rparr>"

definition quiet_context :: "real MusicContext" where
  "quiet_context =
     \<lparr>beatDrop = False, vocalPresence = False, instrumentalDensity = 0,
      emotionalIntensity = 1 / 30, genreHint = acoustic\<rparr>"

definition quiet_raw :: ColorPalette where
  "quiet_raw =
     \<lparr>primary = HSL 30 46 33, secondary = HSL 150 36.8 29.7, accent = HSL 270 55.2 36.3,
      background = HSL 210 13.8 6.6, glow = HSL 30 69 42.9,
      particles = [HSL 30 46 33, HSL 150 46 33, HSL 270 46 33]\<rparr>"

definition quiet_smoothed :: ColorPalette where
  "quiet_smoothed =
     \<lparr>primary = HSL 30 46 33, secondary = HSL 0 0 0, accent = HSL 0 0 0,
      background = HSL 0 0 0, glow = HSL 0 0 0,
      particles = [HSL 30 46 33, HSL 150 46 33, HSL 270 46 33]\<rparr>"

section \<open>The neural render mode\<close>

datatype Node = Node (nodeX: real) (nodeY: real) (intensity: real)

text \<open>\<open>data[k] || 0\<close>: a sample outside the array counts as 0.\<close>

definition sampleOr0 :: "real list \<Rightarrow> nat \<Rightarrow> real" where
  "sampleOr0 data k = (if k < length data then data ! k else 0)"

definition createNodes :: "real \<Rightarrow> real \<Rightarrow> real list \<Rightarrow> real \<Rightarrow> Node list" where
  "createNodes centerX centerY data tm =
     (let nodeCount = 20
      in map (\<lambda>i.
            let angle = (real i / real nodeCount) * pi * 2;
                radius = 100 + sin (tm + real i) * 50
            in Node (centerX + cos angle * radius) (centerY + sin angle * radius)
                 (sampleOr0 data (i * (length data div nodeCount))))
          [0..<nodeCount])"

definition distance :: "Node \<Rightarrow> Node \<Rightarrow> real" where
  "distance a b = sqrt ((nodeX a - nodeX b)\<^sup>2 + (nodeY a - nodeY b)\<^sup>2)"

text \<open>The nested loop that strokes the connections; the result lists the index pairs of
  the lines drawn, in drawing order.\<close>

definition connects :: "Node \<Rightarrow> Node \<Rightarrow> bool" where
  "connects a b \<longleftrightarrow> distance a b < 150 \<and> (intensity a > 0.3 \<or> intensity b > 0.3)"

definition drawConnections :: "Node list \<Rightarrow> (nat \<times> nat) list" where
  "drawConnections nodes =
     concat (map (\<lambda>i.
       concat (map (\<lambda>j. if connects (nodes ! i) (nodes ! j) then [(i, j)] else [])
         [i + 1..<length nodes]))
       [0..<length nodes])"

definition neuralConnections :: "real \<Rightarrow> real \<Rightarrow> real list \<Rightarrow> real \<Rightarrow> (nat \<times> nat) list" where
  "neuralConnections centerX centerY data tm =
     drawConnections (createNodes centerX centerY data tm)"


section \<open>Properties of the Music Brain\<close>

subsection \<open>Means and sums\<close>


lemma foldl_sum_conv: "foldl (\<lambda>sum val. sum + f val) a xs = a + sum_list (map f xs)"
  for a :: real
  by (induction xs arbitrary: a) (simp_all add: algebra_simps)

lemma meanOf_Num: "xs \<noteq> [] \<Longrightarrow> meanOf f xs = Num (sum_list (map f xs) / real (length xs))"
  by (simp add: meanOf_def foldl_sum_conv)

lemma meanOf_Nil: "meanOf f [] = NaN"
  by (simp add: meanOf_def)

lemma mean_Num: "xs \<noteq> [] \<Longrightarrow> mean xs = Num (sum_list xs / real (length xs))"
  by (simp add: mean_def meanOf_Num)

lemma mean_Nil: "mean [] = NaN"
  by (simp add: mean_def meanOf_Nil)

lemma foldl_nadd_Num:
  "foldl (\<lambda>sum val. nadd sum (Num (g val))) (Num a) xs = Num (a + sum_list (map g xs))"
  by (induction xs arbitrary: a) (simp_all add: algebra_simps)

lemma nmeanOf_Num:
  assumes "xs \<noteq> []" and "\<And>x. f (Num x) = Num (g x)"
  shows "nmeanOf f (map Num xs) = Num (sum_list (map g xs) / real (length xs))"
proof -
  have "foldl (\<lambda>sum val. nadd sum (f val)) (Num 0) (map Num xs)
        = foldl (\<lambda>sum val. nadd sum (Num (g val))) (Num 0) xs"
    by (simp add: foldl_map assms(2))
  then show ?thesis using assms(1) by (simp add: nmeanOf_def foldl_nadd_Num)
qed

lemma analyzeDynamics_Num:
  assumes "xs \<noteq> []"
  shows "analyzeDynamics xs =
     Num (min 1 (sqrt (sum_list (map (\<lambda>x. (x - sum_list xs / real (length xs)) * (x - sum_list xs / real (length xs))) xs) / real (length xs)) * 2))"
proof -
  let ?a = "sum_list xs / real (length xs)"
  have v: "nmeanOf (\<lambda>val. nmul (nsub val (Num ?a)) (nsub val (Num ?a))) (map Num xs)
        = Num (sum_list (map (\<lambda>x. (x - ?a) * (x - ?a)) xs) / real (length xs))"
    by (rule nmeanOf_Num[OF assms]) simp
  have nn: "0 \<le> sum_list (map (\<lambda>x. (x - ?a) * (x - ?a)) xs)"
    by (rule sum_list_nonneg) auto
  show ?thesis
    using nn by (simp add: analyzeDynamics_def mean_Num[OF assms] v Let_def not_less)
qed

lemma calculateEnergy_Num:
  assumes "xs \<noteq> []"
  shows "calculateEnergy xs = Num (min 1 (sqrt (sum_list (map (\<lambda>x. x * x) xs) / real (length xs)) * 2))"
proof -
  have nn: "0 \<le> sum_list (map (\<lambda>x. x * x) xs)"
    by (rule sum_list_nonneg) auto
  show ?thesis using nn by (simp add: calculateEnergy_def meanOf_Num[OF assms] Let_def not_less)
qed

lemma corr_fold:
  "fold (correlationStep a b (Num m1) (Num m2)) is (Num n, Num d1, Num d2) =
     (Num (n + (\<Sum>i\<leftarrow>is. (a ! i - m1) * (b ! i - m2))),
      Num (d1 + (\<Sum>i\<leftarrow>is. (a ! i - m1) * (a ! i - m1))),
      Num (d2 + (\<Sum>i\<leftarrow>is. (b ! i - m2) * (b ! i - m2))))"
  by (induction "is" arbitrary: n d1 d2) (simp_all add: correlationStep_def algebra_simps)

lemma calculateCorrelation_Num:
  assumes "length a = length b" "a \<noteq> []"
  shows "calculateCorrelation a b = Num (pearson a b)"
proof -
  have b: "b \<noteq> []" using assms by auto
  define m1 where "m1 = sum_list a / real (length a)"
  define m2 where "m2 = sum_list b / real (length b)"
  define n where "n = (\<Sum>i\<leftarrow>[0..<length a]. (a ! i - m1) * (b ! i - m2))"
  define d1 where "d1 = (\<Sum>i\<leftarrow>[0..<length a]. (a ! i - m1) * (a ! i - m1))"
  define d2 where "d2 = (\<Sum>i\<leftarrow>[0..<length a]. (b ! i - m2) * (b ! i - m2))"
  have "0 \<le> d1" unfolding d1_def by (rule sum_list_nonneg) auto
  moreover have "0 \<le> d2" unfolding d2_def by (rule sum_list_nonneg) auto
  ultimately have nn: "\<not> d1 * d2 < 0" by (simp add: not_less)
  have f: "fold (correlationStep a b (Num m1) (Num m2)) [0..<length a] (Num 0, Num 0, Num 0)
        = (Num n, Num d1, Num d2)"
    by (simp add: corr_fold n_def d1_def d2_def)
  have "calculateCorrelation a b = (if sqrt (d1 * d2) = 0 then Num 0 else Num (n / sqrt (d1 * d2)))"
    unfolding calculateCorrelation_def Let_def mean_Num[OF assms(2)] mean_Num[OF b]
      m1_def[symmetric] m2_def[symmetric] f
    using assms(1) nn by simp
  also have "\<dots> = Num (pearson a b)"
    unfolding pearson_def Let_def m1_def[symmetric] m2_def[symmetric]
      n_def[symmetric] d1_def[symmetric] d2_def[symmetric] by simp
  finally show ?thesis .
qed

lemma calculateCorrelation_Nil: "calculateCorrelation [] [] = Num 0"
  by (simp add: calculateCorrelation_def mean_Nil)


lemma cs_step:
  fixes S X Y f g :: real
  assumes "S * S \<le> X * Y" "0 \<le> X" "0 \<le> Y"
  shows "(S + f * g) * (S + f * g) \<le> (X + f * f) * (Y + g * g)"
proof -
  have q: "0 \<le> X * (g * g) - 2 * S * f * g + Y * (f * f)"
  proof (cases "X = 0")
    case True
    with assms(1) have "S * S \<le> 0" by simp
    then have "S = 0" by (auto simp: mult_le_0_iff)
    with True assms(3) show ?thesis by simp
  next
    case False
    with assms(2) have X: "0 < X" by simp
    have "X * (X * (g * g) - 2 * S * f * g + Y * (f * f))
          = (X * g - S * f) * (X * g - S * f) + (X * Y - S * S) * (f * f)"
      by (simp add: algebra_simps)
    also have "\<dots> \<ge> 0" using assms(1) by (simp add: mult_nonneg_nonneg)
    finally have "0 \<le> X * (X * (g * g) - 2 * S * f * g + Y * (f * f))" .
    with X show ?thesis by (simp add: zero_le_mult_iff)
  qed
  have "(X + f * f) * (Y + g * g) - (S + f * g) * (S + f * g)
        = (X * Y - S * S) + (X * (g * g) - 2 * S * f * g + Y * (f * f))"
    by (simp add: algebra_simps)
  with q assms(1) show ?thesis by linarith
qed

lemma cs_list:
  fixes f g :: "'a \<Rightarrow> real"
  shows "(\<Sum>i\<leftarrow>is. f i * g i) * (\<Sum>i\<leftarrow>is. f i * g i)
          \<le> (\<Sum>i\<leftarrow>is. f i * f i) * (\<Sum>i\<leftarrow>is. g i * g i)"
proof (induction "is")
  case Nil
  then show ?case by simp
next
  case (Cons i "is")
  have X: "0 \<le> (\<Sum>i\<leftarrow>is. f i * f i)" by (rule sum_list_nonneg) auto
  have Y: "0 \<le> (\<Sum>i\<leftarrow>is. g i * g i)" by (rule sum_list_nonneg) auto
  from cs_step[OF Cons.IH X Y, of "f i" "g i"] show ?case
    by (simp add: algebra_simps)
qed

lemma pearson_range: "- 1 \<le> pearson a b \<and> pearson a b \<le> 1"
proof -
  define m1 where "m1 = sum_list a / real (length a)"
  define m2 where "m2 = sum_list b / real (length b)"
  define n where "n = (\<Sum>i\<leftarrow>[0..<length a]. (a ! i - m1) * (b ! i - m2))"
  define d1 where "d1 = (\<Sum>i\<leftarrow>[0..<length a]. (a ! i - m1) * (a ! i - m1))"
  define d2 where "d2 = (\<Sum>i\<leftarrow>[0..<length a]. (b ! i - m2) * (b ! i - m2))"
  have p: "pearson a b = (if sqrt (d1 * d2) = 0 then 0 else n / sqrt (d1 * d2))"
    unfolding pearson_def Let_def m1_def[symmetric] m2_def[symmetric]
      n_def[symmetric] d1_def[symmetric] d2_def[symmetric] by simp
  have "n * n \<le> d1 * d2" unfolding n_def d1_def d2_def by (rule cs_list)
  then have "n\<^sup>2 \<le> d1 * d2" by (simp add: power2_eq_square)
  then have "sqrt (n\<^sup>2) \<le> sqrt (d1 * d2)" by (rule real_sqrt_le_mono)
  then have le: "\<bar>n\<bar> \<le> sqrt (d1 * d2)" by simp
  show ?thesis
  proof (cases "sqrt (d1 * d2) = 0")
    case True
    with p show ?thesis by simp
  next
    case False
    with le have pos: "0 < sqrt (d1 * d2)" by linarith
    from le have "n \<le> sqrt (d1 * d2)" "- sqrt (d1 * d2) \<le> n" by linarith+
    with pos have "n / sqrt (d1 * d2) \<le> 1" "- 1 \<le> n / sqrt (d1 * d2)"
      by (simp_all add: divide_le_eq le_divide_eq)
    with p False show ?thesis by simp
  qed
qed

lemma calculateCorrelation_range:
  "\<exists>r. calculateCorrelation a b = Num r \<and> - 1 \<le> r \<and> r \<le> 1"
proof (cases "length a = length b")
  case False
  then show ?thesis by (simp add: calculateCorrelation_def)
next
  case True
  show ?thesis
  proof (cases "a = []")
    case True
    with \<open>length a = length b\<close> show ?thesis by (simp add: calculateCorrelation_Nil)
  next
    case False
    from calculateCorrelation_Num[OF True False] pearson_range[of a b] show ?thesis by blast
  qed
qed

lemma fold_nadd_range:
  assumes "\<And>i. \<exists>r. g i = Num r \<and> - 1 \<le> r \<and> r \<le> 1"
  shows "\<exists>t. fold (\<lambda>i score. nadd score (g i)) is (Num s) = Num t
           \<and> s - real (length is) \<le> t \<and> t \<le> s + real (length is)"
proof (induction "is" arbitrary: s)
  case Nil
  then show ?case by simp
next
  case (Cons i "is")
  from assms[of i] obtain r where r: "g i = Num r" "- 1 \<le> r" "r \<le> 1" by blast
  from Cons.IH[of "s + r"] obtain t where
    t: "fold (\<lambda>i score. nadd score (g i)) is (Num (s + r)) = Num t"
       "s + r - real (length is) \<le> t" "t \<le> s + r + real (length is)" by blast
  show ?case using r t by (intro exI[of _ t]) simp
qed

lemma analyzeHarmony_range:
  "\<exists>h. analyzeHarmony xs = Num h \<and> - 1 \<le> h \<and> h \<le> 1"
proof -
  define g where "g = (\<lambda>i. calculateCorrelation
       (slice xs (i * (length xs div 8)) ((i + 1) * (length xs div 8)))
       (slice xs ((i + 1) * (length xs div 8)) ((i + 2) * (length xs div 8))))"
  have "\<And>i. \<exists>r. g i = Num r \<and> - 1 \<le> r \<and> r \<le> 1"
    unfolding g_def by (rule calculateCorrelation_range)
  from fold_nadd_range[of g "[0..<7]" 0, OF this] obtain t where
    t: "fold (\<lambda>i score. nadd score (g i)) [0..<7] (Num 0) = Num t" "- 7 \<le> t" "t \<le> 7"
    by auto
  have "analyzeHarmony xs = ndiv (fold (\<lambda>i score. nadd score (g i)) [0..<7] (Num 0)) (Num 7)"
    unfolding analyzeHarmony_def Let_def g_def by simp
  with t have "analyzeHarmony xs = Num (t / 7)" by simp
  moreover from t have "- 1 \<le> t / 7" "t / 7 \<le> 1" by simp_all
  ultimately show ?thesis by blast
qed


lemma sum_list_bounds:
  fixes xs :: "real list"
  assumes "list_all (\<lambda>x. lo \<le> x \<and> x \<le> hi) xs"
  shows "lo * real (length xs) \<le> sum_list xs \<and> sum_list xs \<le> hi * real (length xs)"
  using assms by (induction xs) (auto simp: algebra_simps)

lemma mean_range:
  assumes "xs \<noteq> []" "list_all (\<lambda>x. lo \<le> x \<and> x \<le> hi) xs"
  shows "inRange lo hi (mean xs)"
proof -
  have n: "0 < real (length xs)" using assms(1) by simp
  from sum_list_bounds[OF assms(2)] n
  have "lo \<le> sum_list xs / real (length xs)" "sum_list xs / real (length xs) \<le> hi"
    by (simp_all add: le_divide_eq divide_le_eq)
  then show ?thesis by (simp add: mean_Num[OF assms(1)])
qed

lemma list_all_take: "list_all P xs \<Longrightarrow> list_all P (take n xs)"
  by (auto simp: list_all_iff dest: in_set_takeD)

lemma list_all_drop: "list_all P xs \<Longrightarrow> list_all P (drop n xs)"
  by (auto simp: list_all_iff dest: in_set_dropD)

lemma list_all_slice: "list_all P xs \<Longrightarrow> list_all P (slice xs a b)"
  by (simp add: slice_def list_all_take list_all_drop)


lemma mean_square_nonneg: "0 \<le> (\<Sum>x\<leftarrow>xs. (f x :: real) * f x) / real (length xs)"
proof -
  have "0 \<le> (\<Sum>x\<leftarrow>xs. f x * f x)" by (rule sum_list_nonneg) auto
  then show ?thesis by simp
qed

lemma analyzeDynamics_range: "xs \<noteq> [] \<Longrightarrow> inRange 0 1 (analyzeDynamics xs)"
  by (simp add: analyzeDynamics_Num mean_square_nonneg)

lemma calculateEnergy_range: "xs \<noteq> [] \<Longrightarrow> inRange 0 1 (calculateEnergy xs)"
  by (simp add: calculateEnergy_Num mean_square_nonneg)


lemma features_fields:
  "bass (computeFeatures st xs) = extractBass xs"
  "mid (computeFeatures st xs) = extractMid xs"
  "treble (computeFeatures st xs) = extractTreble xs"
  "rhythm (computeFeatures st xs) = analyzeRhythm st (extractBass xs) (extractMid xs)"
  "melody (computeFeatures st xs) = analyzeMelody st (extractMid xs) (extractTreble xs)"
  "harmony (computeFeatures st xs) = analyzeHarmony xs"
  "dynamics (computeFeatures st xs) = analyzeDynamics xs"
  "energy (computeFeatures st xs) = calculateEnergy xs"
  "tempo (computeFeatures st xs) =
     estimateTempo st (analyzeRhythm st (extractBass xs) (extractMid xs))"
  "mood (computeFeatures st xs) =
     determineMood (calculateEnergy xs) (analyzeHarmony xs) (analyzeDynamics xs)"
  by (simp_all add: computeFeatures_def Let_def)

lemma analyzeAudio_features:
  "fst (fst (analyzeAudio st xs)) = computeFeatures (st\<lparr>time := time st + 1\<rparr>) xs"
  by (simp add: analyzeAudio_def Let_def)

lemma analyzeRhythm_time [simp]: "analyzeRhythm (st\<lparr>time := t\<rparr>) b m = analyzeRhythm st b m"
  by (simp add: analyzeRhythm_def Let_def)

lemma analyzeMelody_time [simp]: "analyzeMelody (st\<lparr>time := t\<rparr>) b m = analyzeMelody st b m"
  by (simp add: analyzeMelody_def)

lemma estimateTempo_time [simp]: "estimateTempo (st\<lparr>time := t\<rparr>) r = estimateTempo st r"
  by (simp add: estimateTempo_def)

subsection \<open>Uniform frames\<close>

lemma mean_replicate: "0 < n \<Longrightarrow> mean (replicate n c) = Num c"
  by (simp add: mean_Num sum_list_replicate)

lemma uniform_bands:
  "extractBass (replicate 128 c) = Num c"
  "extractMid (replicate 128 c) = Num c"
  "extractTreble (replicate 128 c) = Num c"
  by (simp_all add: extractBass_def extractMid_def extractTreble_def slice_def sliceFrom_def
      mean_replicate)

lemma uniform_dynamics: "analyzeDynamics (replicate 128 c) = Num 0"
  by (simp add: analyzeDynamics_Num sum_list_replicate o_def)

lemma uniform_energy: "calculateEnergy (replicate 128 c) = Num (min 1 (\<bar>c\<bar> * 2))"
  by (simp add: calculateEnergy_Num sum_list_replicate o_def)

lemma sum_upt_replicate:
  "(\<Sum>i\<leftarrow>[0..<n]. (replicate n c ! i - m) * (replicate n c ! i - m)) = real n * ((c - m) * (c - m))"
proof -
  have "map (\<lambda>i. (replicate n c ! i - m) * (replicate n c ! i - m)) [0..<n]
        = map (\<lambda>i. (c - m) * (c - m)) [0..<n]"
    by simp
  then have "(\<Sum>i\<leftarrow>[0..<n]. (replicate n c ! i - m) * (replicate n c ! i - m))
        = (\<Sum>i\<leftarrow>[0..<n]. (c - m) * (c - m))"
    by (rule arg_cong)
  also have "\<dots> = real n * ((c - m) * (c - m))" by (simp add: sum_list_triv)
  finally show ?thesis .
qed

lemma pearson_replicate: "0 < n \<Longrightarrow> pearson (replicate n c) (replicate n c) = 0"
  by (simp add: pearson_def Let_def sum_list_replicate sum_upt_replicate)

lemma fold_nadd_zero:
  "(\<And>i. i \<in> set is \<Longrightarrow> g i = Num 0) \<Longrightarrow> fold (\<lambda>i score. nadd score (g i)) is (Num s) = Num s"
  by (induction "is" arbitrary: s) simp_all

lemma uniform_harmony: "analyzeHarmony (replicate 128 c) = Num 0"
proof -
  define g where "g = (\<lambda>i. calculateCorrelation
       (slice (replicate 128 c) (i * 16) ((i + 1) * 16))
       (slice (replicate 128 c) ((i + 1) * 16) ((i + 2) * 16)))"
  have z: "g i = Num 0" if "i \<in> set [0..<7]" for i
  proof -
    from that have "i < 7" by simp
    then have "min 16 (128 - i * 16) = 16" "min 16 (112 - i * 16) = 16" by simp_all
    then show ?thesis
      by (simp add: g_def slice_def calculateCorrelation_Num pearson_replicate)
  qed
  have "analyzeHarmony (replicate 128 c)
        = ndiv (fold (\<lambda>i score. nadd score (g i)) [0..<7] (Num 0)) (Num 7)"
    unfolding analyzeHarmony_def Let_def g_def by simp
  also have "\<dots> = Num 0" by (simp only: fold_nadd_zero[of "[0..<7]" g, OF z]) simp
  finally show ?thesis .
qed

lemma calculateConsistency_replicate:
  "2 \<le> n \<Longrightarrow> calculateConsistency (replicate n (Num c)) = Num 1"
proof -
  assume n: "2 \<le> n"
  then have ne: "replicate n c \<noteq> []" by auto
  have m: "nmean (replicate n (Num c)) = Num c"
    using nmeanOf_Num[OF ne, of "\<lambda>v. v" "\<lambda>x. x"] n
    by (simp add: nmean_def sum_list_replicate)
  have v: "nmeanOf (\<lambda>val. nmul (nsub val (Num c)) (nsub val (Num c))) (replicate n (Num c)) = Num 0"
    using nmeanOf_Num[OF ne, of "\<lambda>val. nmul (nsub val (Num c)) (nsub val (Num c))" "\<lambda>x. (x - c) * (x - c)"]
    by (simp add: sum_list_replicate o_def)
  show ?thesis using n by (simp add: calculateConsistency_def Let_def m v)
qed


subsection \<open>Scenario B\<close>

text \<open>
  Claim C5. On the first tick (empty history, no previous features) the uniform frame of
  128 samples equal to 1.0 gives exactly bass = mid = treble = 1, rhythm = 1.2,
  melody = 1.4 (both above 1, not clamped), harmony = 0, dynamics = 0, energy = 1,
  tempo = 120 and mood joyful; the genre hint is electronic, the first rule of
  \<open>detectGenre\<close>, although the conditions of the later rules for rock
  (rhythm > 0.6 and bass > 0.5) and voice (mid > 0.6 and melody > 0.5) hold as well.
\<close>

theorem scenarioB_first_tick:
  "fst (fst (analyzeAudio initialMusicBrain (replicate 128 1))) =
     \<lparr>bass = Num 1, mid = Num 1, treble = Num 1, rhythm = Num 1.2, melody = Num 1.4,
      harmony = Num 0, dynamics = Num 0, energy = Num 1, tempo = Num 120, mood = joyful\<rparr>
   \<and> genreHint (snd (fst (analyzeAudio initialMusicBrain (replicate 128 1)))) = electronic
   \<and> ngt (rhythm (fst (fst (analyzeAudio initialMusicBrain (replicate 128 1))))) (Num 0.6)
   \<and> ngt (bass (fst (fst (analyzeAudio initialMusicBrain (replicate 128 1))))) (Num 0.5)
   \<and> ngt (mid (fst (fst (analyzeAudio initialMusicBrain (replicate 128 1))))) (Num 0.6)
   \<and> ngt (melody (fst (fst (analyzeAudio initialMusicBrain (replicate 128 1))))) (Num 0.5)"
  by (simp add: analyzeAudio_def Let_def computeFeatures_def uniform_bands uniform_harmony
      uniform_dynamics uniform_energy analyzeRhythm_def analyzeMelody_def estimateTempo_def determineMood_def
      initialMusicBrain_def analyzeContext_def detectGenre_def)


subsection \<open>Histories\<close>


lemma analyzeAudio_beatHistory:
  "beatHistory (snd (analyzeAudio st xs)) =
     pushCapped 20 (beatHistory st) (rhythm (fst (fst (analyzeAudio st xs))))"
  by (simp add: analyzeAudio_def Let_def updateHistory_def)

lemma analyzeAudio_energyHistory:
  "energyHistory (snd (analyzeAudio st xs)) =
     pushCapped 20 (energyHistory st) (energy (fst (fst (analyzeAudio st xs))))"
  by (simp add: analyzeAudio_def Let_def updateHistory_def)

lemma analyzeFrames_snoc:
  "analyzeFrames st (fs @ [f]) =
     (fst (analyzeFrames st fs) @ [fst (analyzeAudio (snd (analyzeFrames st fs)) f)],
      snd (analyzeAudio (snd (analyzeFrames st fs)) f))"
  by (induction fs arbitrary: st) (simp_all add: split_beta Let_def)

lemma length_analyzeFrames: "length (fst (analyzeFrames st fs)) = length fs"
  by (induction fs arbitrary: st) (simp_all add: split_beta Let_def)

lemma pushCapped_sliceLast:
  "pushCapped cap (sliceLast xs cap) x = sliceLast (xs @ [x]) cap"
proof (cases "length xs < cap")
  case True
  then show ?thesis by (simp add: pushCapped_def sliceLast_def Let_def)
next
  case False
  define k where "k = length xs - cap"
  have k: "k \<le> length xs" "length xs - k = cap" "Suc (length xs) - cap = Suc k"
    using False by (simp_all add: k_def)
  have "pushCapped cap (sliceLast xs cap) x = tl (drop k xs @ [x])"
    using k by (simp add: pushCapped_def sliceLast_def Let_def k_def[symmetric])
  also have "drop k xs @ [x] = drop k (xs @ [x])" using k by simp
  also have "tl (drop k (xs @ [x])) = drop (Suc k) (xs @ [x])"
    by (simp only: drop_Suc tl_drop)
  also have "\<dots> = sliceLast (xs @ [x]) cap"
    using k by (simp add: sliceLast_def)
  finally show ?thesis .
qed

lemma history_is_recent:
  "beatHistory (snd (analyzeFrames initialMusicBrain fs)) =
     sliceLast (map (\<lambda>r. rhythm (fst r)) (fst (analyzeFrames initialMusicBrain fs))) 20"
proof (induction fs rule: rev_induct)
  case Nil
  then show ?case by (simp add: initialMusicBrain_def sliceLast_def)
next
  case (snoc f fs)
  show ?case
    by (simp add: analyzeFrames_snoc analyzeAudio_beatHistory snoc.IH pushCapped_sliceLast)
qed

lemma length_history:
  "length (beatHistory (snd (analyzeFrames initialMusicBrain fs))) = min (length fs) 20"
  by (simp add: history_is_recent sliceLast_def length_analyzeFrames)

lemma analyzeAudio_rhythm:
  "rhythm (fst (fst (analyzeAudio st xs))) = analyzeRhythm st (extractBass xs) (extractMid xs)"
  by (simp add: analyzeAudio_features features_fields)

lemma extractTreble_short: "length xs \<le> 96 \<Longrightarrow> extractTreble xs = NaN"
  by (simp add: extractTreble_def sliceFrom_def mean_Nil)

lemma nadd_NaN_right [simp]: "nadd x NaN = NaN"
  by (cases x) simp_all

lemma nmin_NaN_right [simp]: "nmin x NaN = NaN"
  by (cases x) simp_all

lemma analyzeMelody_NaN: "analyzeMelody st m NaN = NaN"
  by (simp add: analyzeMelody_def Let_def split: option.splits)


lemma energy_history_is_recent:
  "energyHistory (snd (analyzeFrames initialMusicBrain fs)) =
     sliceLast (map (\<lambda>r. energy (fst r)) (fst (analyzeFrames initialMusicBrain fs))) 20"
proof (induction fs rule: rev_induct)
  case Nil
  then show ?case by (simp add: initialMusicBrain_def sliceLast_def)
next
  case (snoc f fs)
  show ?case
    by (simp add: analyzeFrames_snoc analyzeAudio_energyHistory snoc.IH pushCapped_sliceLast)
qed


subsection \<open>Rhythm\<close>

text \<open>
  Claim C7, amended. For every sequence of earlier frames and every frame, the rhythm of
  the next tick is max(bass * 1.2, mid * 0.8), multiplied by
  (1 + consistency(last 4 beat-history entries) * 0.5) exactly when more than 4 ticks
  came before, that is when the beat history holds more than 4 entries; with 4 entries
  or fewer the bare maximum is returned. (\<open>calculateConsistency_Num\<close> gives the
  consistency of finite values as max(0, 1 - sqrt(variance)).)
\<close>

theorem rhythm_multiplier_after_five_ticks:
  "rhythm (fst (fst (analyzeAudio (snd (analyzeFrames initialMusicBrain frames)) audioData))) =
     (let st = snd (analyzeFrames initialMusicBrain frames);
          strength = nmax (nmul (extractBass audioData) (Num 1.2)) (nmul (extractMid audioData) (Num 0.8))
      in if 4 < length frames
         then nmul strength
                (nadd (Num 1) (nmul (calculateConsistency (sliceLast (beatHistory st) 4)) (Num 0.5)))
         else strength)"
proof -
  have "(4 < length (beatHistory (snd (analyzeFrames initialMusicBrain frames)))) = (4 < length frames)"
    by (simp add: length_history)
  then show ?thesis
    by (simp add: analyzeAudio_rhythm analyzeRhythm_def Let_def)
qed


lemma uniform_tick_history:
  "length (beatHistory st) \<le> 4 \<Longrightarrow>
   beatHistory (snd (analyzeAudio st (replicate 128 c))) =
     pushCapped 20 (beatHistory st) (Num (max (c * 1.2) (c * 0.8)))"
  by (simp add: analyzeAudio_beatHistory analyzeAudio_rhythm analyzeRhythm_def Let_def uniform_bands)

lemma analyzeFrames_state:
  "snd (analyzeFrames st []) = st"
  "snd (analyzeFrames st (f # fs)) = snd (analyzeFrames (snd (analyzeAudio st f)) fs)"
  by (simp_all add: split_beta Let_def)

lemma four_ticks:
  "beatHistory (snd (analyzeFrames initialMusicBrain
      [replicate 128 1, replicate 128 1, replicate 128 1, replicate 128 1]))
   = [Num 1.2, Num 1.2, Num 1.2, Num 1.2]"
proof -
  have 0: "beatHistory initialMusicBrain = []" by (simp add: initialMusicBrain_def)
  show ?thesis
    by (simp add: analyzeFrames_state uniform_tick_history 0 pushCapped_def
        del: analyzeFrames.simps)
qed

text \<open>
  Claim C7 as stated fails on the fifth tick: after four uniform frames the beat history
  holds exactly 4 entries, their consistency is 1, and the rhythm of the fifth frame is
  1.2, not 1.2 * (1 + 1 * 0.5) = 1.8.
\<close>

theorem fifth_tick_without_multiplier:
  "length (beatHistory (snd (analyzeFrames initialMusicBrain
      [replicate 128 1, replicate 128 1, replicate 128 1, replicate 128 1]))) = 4
   \<and> calculateConsistency (sliceLast (beatHistory (snd (analyzeFrames initialMusicBrain
      [replicate 128 1, replicate 128 1, replicate 128 1, replicate 128 1]))) 4) = Num 1
   \<and> rhythm (fst (fst (analyzeAudio (snd (analyzeFrames initialMusicBrain
      [replicate 128 1, replicate 128 1, replicate 128 1, replicate 128 1])) (replicate 128 1))))
       = Num 1.2
   \<and> nmul (nmax (nmul (extractBass (replicate 128 1)) (Num 1.2)) (nmul (extractMid (replicate 128 1)) (Num 0.8)))
        (nadd (Num 1) (nmul (Num 1) (Num 0.5))) = Num 1.8"
proof -
  have c: "calculateConsistency [Num v, Num v, Num v, Num v] = Num 1" for v
    using calculateConsistency_replicate[of 4 v] by (simp add: numeral_eq_Suc)
  show ?thesis
    by (simp add: four_ticks sliceLast_def c analyzeAudio_rhythm analyzeRhythm_def Let_def
        uniform_bands del: analyzeFrames.simps)
qed










subsection \<open>Ranges of the features\<close>














text \<open>The upper end of the tempo range: five uniform frames of 1.0 and three of 2/3 put
  eight beats of strength 1.2 into the history, and the ninth tick estimates 204.\<close>

lemma uniform_tick_history':
  "4 < length (beatHistory st) \<Longrightarrow>
   beatHistory (snd (analyzeAudio st (replicate 128 c))) =
     pushCapped 20 (beatHistory st)
       (nmul (Num (max (c * 1.2) (c * 0.8)))
          (nadd (Num 1) (nmul (calculateConsistency (sliceLast (beatHistory st) 4)) (Num 0.5))))"
  by (simp add: analyzeAudio_beatHistory analyzeAudio_rhythm analyzeRhythm_def Let_def uniform_bands)

lemma consistency4: "calculateConsistency [Num v, Num v, Num v, Num v] = Num 1"
  using calculateConsistency_replicate[of 4 v] by (simp add: numeral_eq_Suc)

lemma eight_ticks:
  "beatHistory (snd (analyzeFrames initialMusicBrain
      [replicate 128 1, replicate 128 1, replicate 128 1, replicate 128 1, replicate 128 1,
       replicate 128 (2/3), replicate 128 (2/3), replicate 128 (2/3)]))
   = [Num 1.2, Num 1.2, Num 1.2, Num 1.2, Num 1.2, Num 1.2, Num 1.2, Num 1.2]"
proof -
  have 0: "beatHistory initialMusicBrain = []" by (simp add: initialMusicBrain_def)
  show ?thesis
    by (simp add: analyzeFrames_state uniform_tick_history uniform_tick_history' 0 pushCapped_def
        sliceLast_def consistency4 del: analyzeFrames.simps)
qed

lemma tempo_above_180:
  "tempo (fst (fst (analyzeAudio (snd (analyzeFrames initialMusicBrain
      [replicate 128 1, replicate 128 1, replicate 128 1, replicate 128 1, replicate 128 1,
       replicate 128 (2/3), replicate 128 (2/3), replicate 128 (2/3)])) (replicate 128 1))))
   = Num 204"
  by (simp add: analyzeAudio_features features_fields estimateTempo_def eight_ticks Let_def
      sliceLast_def nmean_def nmeanOf_def del: analyzeFrames.simps)

subsection \<open>Undersized frames\<close>

lemma inRange_isFinite: "inRange lo hi x \<Longrightarrow> isFinite x"
  by (cases x) simp_all

text \<open>
  Claim C4, amended. For a frame of at most 96 samples \<open>extractTreble\<close> divides 0 by 0 and
  returns NaN, and so do the treble and the melody of \<open>analyzeAudio\<close>. For a frame whose
  samples are in the nominal range [0,1] the harmony is finite whatever the length,
  because \<open>calculateCorrelation\<close> checks its denominator, and when such a frame has more
  than 96 samples, bass, mid, treble, dynamics and energy are finite.
\<close>

theorem undersized_frame_features:
  "(length audioData \<le> 96 \<longrightarrow>
      extractTreble audioData = NaN
      \<and> treble (fst (fst (analyzeAudio st audioData))) = NaN
      \<and> melody (fst (fst (analyzeAudio st audioData))) = NaN)
   \<and> (samplesInRange audioData \<longrightarrow>
      isFinite (harmony (fst (fst (analyzeAudio st audioData))))
      \<and> (96 < length audioData \<longrightarrow>
           isFinite (bass (fst (fst (analyzeAudio st audioData))))
         \<and> isFinite (mid (fst (fst (analyzeAudio st audioData))))
         \<and> isFinite (treble (fst (fst (analyzeAudio st audioData))))
         \<and> isFinite (dynamics (fst (fst (analyzeAudio st audioData))))
         \<and> isFinite (energy (fst (fst (analyzeAudio st audioData))))))"
proof -
  from analyzeHarmony_range[of audioData] have h: "isFinite (analyzeHarmony audioData)" by auto
  have short: "extractTreble audioData = NaN
      \<and> treble (fst (fst (analyzeAudio st audioData))) = NaN
      \<and> melody (fst (fst (analyzeAudio st audioData))) = NaN" if "length audioData \<le> 96"
    using that
    by (simp add: analyzeAudio_features features_fields extractTreble_short analyzeMelody_NaN)
  have long: "isFinite (bass (fst (fst (analyzeAudio st audioData))))
         \<and> isFinite (mid (fst (fst (analyzeAudio st audioData))))
         \<and> isFinite (treble (fst (fst (analyzeAudio st audioData))))
         \<and> isFinite (dynamics (fst (fst (analyzeAudio st audioData))))
         \<and> isFinite (energy (fst (fst (analyzeAudio st audioData))))"
    if r: "samplesInRange audioData" and l: "96 < length audioData"
  proof -
    from r have all: "list_all (\<lambda>x. 0 \<le> x \<and> x \<le> 1) audioData" by (simp add: samplesInRange_def)
    from l have ne: "audioData \<noteq> []" "slice audioData 0 32 \<noteq> []" "slice audioData 32 96 \<noteq> []"
      "sliceFrom audioData 96 \<noteq> []"
      by (auto simp: slice_def sliceFrom_def)
    have b: "inRange 0 1 (extractBass audioData)"
      unfolding extractBass_def by (rule mean_range[OF ne(2) list_all_slice[OF all]])
    have m: "inRange 0 1 (extractMid audioData)"
      unfolding extractMid_def by (rule mean_range[OF ne(3) list_all_slice[OF all]])
    have t: "inRange 0 1 (extractTreble audioData)"
      unfolding extractTreble_def using ne(4) all
      by (intro mean_range) (simp_all add: sliceFrom_def list_all_drop)
    show ?thesis
      using b m t analyzeDynamics_range[OF ne(1)] calculateEnergy_range[OF ne(1)]
      by (simp add: analyzeAudio_features features_fields inRange_isFinite)
  qed
  have hh: "isFinite (harmony (fst (fst (analyzeAudio st audioData))))"
    using h by (simp add: analyzeAudio_features features_fields)
  show ?thesis
    using hh short long by blast
qed

text \<open>The amended claim C4 on the empty frame and on a frame of 128 samples.\<close>

theorem undersized_frame_features_witness:
  "length ([] :: real list) \<le> 96 \<and> samplesInRange []
   \<and> extractTreble [] = NaN \<and> treble (fst (fst (analyzeAudio initialMusicBrain []))) = NaN
   \<and> isFinite (harmony (fst (fst (analyzeAudio initialMusicBrain []))))
   \<and> samplesInRange (replicate 128 1) \<and> 96 < length (replicate 128 (1::real))
   \<and> isFinite (treble (fst (fst (analyzeAudio initialMusicBrain (replicate 128 1)))))"
proof -
  have a: "samplesInRange []" "samplesInRange (replicate 128 1)"
    by (simp_all add: samplesInRange_def list_all_iff)
  from undersized_frame_features[of "[]" initialMusicBrain]
    undersized_frame_features[of "replicate 128 1" initialMusicBrain] a
  show ?thesis by simp
qed

text \<open>Claim C4 as stated fails on a frame of 96 samples: the treble is NaN, not 0, and
  the features are not all finite.\<close>

theorem treble_NaN_on_short_frame:
  "length (replicate 96 (1/2) :: real list) \<le> 96
   \<and> extractTreble (replicate 96 (1/2)) \<noteq> Num 0
   \<and> \<not> isFinite (treble (fst (fst (analyzeAudio initialMusicBrain (replicate 96 (1/2))))))
   \<and> \<not> isFinite (melody (fst (fst (analyzeAudio initialMusicBrain (replicate 96 (1/2))))))"
  by (simp add: analyzeAudio_features features_fields extractTreble_short analyzeMelody_NaN)

section \<open>Properties of the colour strings\<close>

lemma digitChar_cases:
  "d < 10 \<Longrightarrow> d = 0 \<or> d = 1 \<or> d = 2 \<or> d = 3 \<or> d = 4 \<or> d = 5 \<or> d = 6 \<or> d = 7 \<or> d = 8 \<or> d = (9::nat)"
  by arith

lemma isDigit_digitChar: "d < 10 \<Longrightarrow> isDigit (digitChar d)"
  using digitChar_cases[of d] by (auto simp: isDigit_def digitChar_def)

lemma digitValue_digitChar: "d < 10 \<Longrightarrow> digitValue (digitChar d) = d"
  using digitChar_cases[of d] by (auto simp: digitValue_def digitChar_def)

lemma natToString_digits: "natToString n \<noteq> [] \<and> list_all isDigit (natToString n)"
proof (induction n rule: natToString.induct)
  case (1 n)
  show ?case
  proof (cases "n < 10")
    case True
    then show ?thesis by (subst (1 2) natToString.simps) (simp add: isDigit_digitChar)
  next
    case False
    with 1 have "list_all isDigit (natToString (n div 10))" by simp
    with False show ?thesis by (subst (1 2) natToString.simps) (simp add: isDigit_digitChar)
  qed
qed

lemma parseInt_natToString: "parseInt (natToString n) = real n"
proof -
  have "foldl (\<lambda>n c. 10 * n + digitValue c) 0 (natToString n) = n"
  proof (induction n rule: natToString.induct)
    case (1 n)
    show ?case
    proof (cases "n < 10")
      case True
      then show ?thesis by (subst natToString.simps) (simp add: digitValue_digitChar)
    next
      case False
      with 1 have "foldl (\<lambda>n c. 10 * n + digitValue c) 0 (natToString (n div 10)) = n div 10" by simp
      with False show ?thesis by (subst natToString.simps) (simp add: digitValue_digitChar)
    qed
  qed
  then show ?thesis by (simp add: parseInt_def)
qed

lemma digitRun_append:
  assumes "ds \<noteq> []" "list_all isDigit ds" "\<not> isDigit c"
  shows "digitRun (ds @ c # rest) = Some (ds, c # rest)"
proof -
  have "takeWhile isDigit (ds @ c # rest) = ds" "dropWhile isDigit (ds @ c # rest) = c # rest"
    using assms by (simp_all add: takeWhile_append2 dropWhile_append2 list_all_iff)
  with assms(1) show ?thesis by (simp add: digitRun_def)
qed

lemma digitRun_stop:
  assumes "list_all isDigit ds" "\<not> isDigit c"
  shows "digitRun (ds @ c # rest) = (if ds = [] then None else Some (ds, c # rest))"
  using assms digitRun_append[of ds c rest] by (cases "ds = []") (simp_all add: digitRun_def)

lemma isNatural_iff: "isNatural x \<longleftrightarrow> x = real (nat \<lfloor>x\<rfloor>)"
  by (auto simp: isNatural_def) (metis of_nat_0_le_iff floor_of_nat int_nat_eq of_int_of_nat_eq of_nat_nat zero_le_floor)+

lemma numberToString_natural: "isNatural x \<Longrightarrow> numberToString x = natToString (nat \<lfloor>x\<rfloor>)"
  by (simp add: numberToString_def unsignedToString_def isNatural_def not_less)

lemma fracDigits_digits: "0 \<le> x \<Longrightarrow> x < 1 \<Longrightarrow> list_all isDigit (fracDigits k x)"
proof (induction k arbitrary: x)
  case 0
  then show ?case by simp
next
  case (Suc k)
  define d where "d = nat \<lfloor>x * 10\<rfloor>"
  have d: "d < 10" "real d \<le> x * 10" "x * 10 - real d < 1"
    using Suc.prems unfolding d_def by (simp_all add: nat_less_iff floor_less_iff) linarith+
  then have "list_all isDigit (fracDigits k (x * 10 - real d))"
    by (intro Suc.IH) simp_all
  with d(1) show ?case by (simp add: Let_def d_def[symmetric] isDigit_digitChar)
qed

lemma list_all_mono': "list_all P xs \<Longrightarrow> (\<And>x. P x \<Longrightarrow> Q x) \<Longrightarrow> list_all Q xs"
  by (auto simp: list_all_iff)

lemma unsignedToString_shape:
  assumes "0 \<le> x"
  shows "list_all numChar (unsignedToString x)"
    and "x \<noteq> of_int \<lfloor>x\<rfloor> \<Longrightarrow> \<exists>ds r. unsignedToString x = ds @ CHR ''.'' # r \<and> ds \<noteq> [] \<and> list_all isDigit ds"
proof -
  have f: "list_all isDigit (fracDigits 17 (x - of_int \<lfloor>x\<rfloor>))"
    by (rule fracDigits_digits) linarith+
  have n: "list_all isDigit (natToString (nat \<lfloor>x\<rfloor>))" "natToString (nat \<lfloor>x\<rfloor>) \<noteq> []"
    using natToString_digits by simp_all
  show "list_all numChar (unsignedToString x)"
    using list_all_mono'[OF f, of numChar] list_all_mono'[OF n(1), of numChar]
    by (simp add: unsignedToString_def numChar_def)
  show "\<exists>ds r. unsignedToString x = ds @ CHR ''.'' # r \<and> ds \<noteq> [] \<and> list_all isDigit ds"
    if "x \<noteq> of_int \<lfloor>x\<rfloor>"
    using that n by (auto simp: unsignedToString_def)
qed

lemma numberToString_chars: "list_all numChar (numberToString x)"
  using unsignedToString_shape(1)[of x] unsignedToString_shape(1)[of "- x"]
  by (simp add: numberToString_def numChar_def)

lemma numberToString_nonnatural:
  assumes "\<not> isNatural x"
  shows "\<exists>ds c r. numberToString x = ds @ c # r \<and> list_all isDigit ds
           \<and> (c = CHR ''-'' \<or> c = CHR ''.'')"
proof (cases "x < 0")
  case True
  then have "numberToString x = [] @ CHR ''-'' # unsignedToString (- x)"
    by (simp add: numberToString_def)
  then show ?thesis by (intro exI[of _ "[]"] exI[of _ "CHR ''-''"] exI[of _ "unsignedToString (- x)"]) simp
next
  case False
  with assms have "x \<noteq> of_int \<lfloor>x\<rfloor>" "0 \<le> x" by (auto simp: isNatural_def)
  from unsignedToString_shape(2)[OF this(2) this(1)] False show ?thesis
    by (auto simp: numberToString_def)
qed

lemma matchAt_Nil: "matchAt [] = None"
  by (simp add: matchAt_def)

lemma matchAt_other: "c \<noteq> CHR ''h'' \<Longrightarrow> matchAt (c # cs) = None"
  by (simp add: matchAt_def)

lemma matchHSL_no_h: "CHR ''h'' \<notin> set s \<Longrightarrow> matchHSL s = None"
proof (induction s)
  case Nil
  then show ?case by (simp add: matchAt_Nil)
next
  case (Cons c cs)
  from Cons.prems have c: "c \<noteq> CHR ''h''" by auto
  from Cons.prems have "CHR ''h'' \<notin> set cs" by auto
  then have r: "matchHSL cs = None" by (rule Cons.IH)
  show ?case by (simp add: matchAt_other[OF c] r)
qed

lemma not_numChar_h: "\<not> numChar (CHR ''h'')"
  by (simp add: numChar_def isDigit_def)

lemma numChar_not_h: "list_all numChar s \<Longrightarrow> CHR ''h'' \<notin> set s"
  using not_numChar_h by (auto simp: list_all_iff)


lemma matchHSL_head:
  assumes "CHR ''h'' \<notin> set rest"
  shows "matchHSL (CHR ''h'' # rest) = matchAt (CHR ''h'' # rest)"
proof -
  have "matchHSL (CHR ''h'' # rest)
      = (case matchAt (CHR ''h'' # rest) of Some m \<Rightarrow> Some m | None \<Rightarrow> matchHSL rest)"
    by (rule matchHSL.simps(2))
  also have "\<dots> = matchAt (CHR ''h'' # rest)"
    unfolding matchHSL_no_h[OF assms] by (cases "matchAt (CHR ''h'' # rest)") simp_all
  finally show ?thesis .
qed


lemma matchHSL_template:
  assumes "list_all numChar a" "list_all numChar b" "list_all numChar c"
  shows "matchHSL (template a b c) = matchAt (template a b c)"
proof -
  note h = numChar_not_h[OF assms(1)] numChar_not_h[OF assms(2)] numChar_not_h[OF assms(3)]
  have t: "template a b c = CHR ''h'' # (''sl('' @ a @ '', '' @ b @ ''%, '' @ c @ ''%)'')"
    by (simp add: template_def)
  have "CHR ''h'' \<notin> set (''sl('' @ a @ '', '' @ b @ ''%, '' @ c @ ''%)'')"
    using h by simp
  then show ?thesis unfolding t by (rule matchHSL_head)
qed


lemma not_digit_punct: "\<not> isDigit (CHR '','')" "\<not> isDigit (CHR ''%'')" "\<not> isDigit (CHR ''-'')" "\<not> isDigit (CHR ''.'')"
  by (simp_all add: isDigit_def)

lemma skipSpaces_text:
  assumes "s \<noteq> []" "list_all numChar s"
  shows "skipSpaces (CHR '' '' # s @ rest) = s @ rest"
proof -
  from assms obtain d s' where d: "s = d # s'" "numChar d" by (cases s) auto
  then have "\<not> isSpace d" by (auto simp: numChar_def isDigit_def isSpace_def)
  with d show ?thesis by (simp add: skipSpaces_def isSpace_def)
qed

lemma digits_numChar: "list_all isDigit s \<Longrightarrow> list_all numChar s"
  by (auto simp: list_all_iff numChar_def)

lemma matchAt_good:
  assumes a: "a \<noteq> []" "list_all isDigit a" and b: "b \<noteq> []" "list_all isDigit b"
    and c: "c \<noteq> []" "list_all isDigit c"
  shows "matchAt (template a b c) = Some (a, b, c)"
proof -
  have 1: "digitRun (a @ CHR '','' # CHR '' '' # b @ CHR ''%'' # CHR '','' # CHR '' '' # c @ ''%)'')
        = Some (a, CHR '','' # CHR '' '' # b @ CHR ''%'' # CHR '','' # CHR '' '' # c @ ''%)'')"
    by (rule digitRun_append[OF a not_digit_punct(1)])
  have 2: "skipSpaces (CHR '' '' # b @ CHR ''%'' # CHR '','' # CHR '' '' # c @ ''%)'')
        = b @ CHR ''%'' # CHR '','' # CHR '' '' # c @ ''%)''"
    by (rule skipSpaces_text[OF b(1) digits_numChar[OF b(2)]])
  have 3: "digitRun (b @ CHR ''%'' # CHR '','' # CHR '' '' # c @ ''%)'')
        = Some (b, CHR ''%'' # CHR '','' # CHR '' '' # c @ ''%)'')"
    by (rule digitRun_append[OF b not_digit_punct(2)])
  have 4: "skipSpaces (CHR '' '' # c @ ''%)'') = c @ ''%)''"
    by (rule skipSpaces_text[OF c(1) digits_numChar[OF c(2)]])
  have 5: "digitRun (c @ ''%)'') = Some (c, ''%)'')"
    using digitRun_append[OF c not_digit_punct(2), of "'')''"] by simp
  show ?thesis
    by (simp add: matchAt_def template_def 1 2 3 4 5)
qed


lemma digitRun_bad_then:
  assumes "list_all isDigit ds" "x = CHR ''-'' \<or> x = CHR ''.''"
  shows "digitRun (ds @ x # rest) = None \<or> digitRun (ds @ x # rest) = Some (ds, x # rest)"
proof -
  have "\<not> isDigit x" using assms(2) not_digit_punct by auto
  from digitRun_stop[OF assms(1) this] show ?thesis by (cases "ds = []") simp_all
qed

lemma matchAt_bad1:
  assumes "list_all isDigit ds" "x = CHR ''-'' \<or> x = CHR ''.''"
  shows "matchAt (template (ds @ x # r) b c) = None"
proof -
  let ?rest = "r @ CHR '','' # CHR '' '' # b @ CHR ''%'' # CHR '','' # CHR '' '' # c @ ''%)''"
  have x: "x \<noteq> CHR '',''" using assms(2) by auto
  have s: "stripPrefix ''hsl('' (template (ds @ x # r) b c) = Some (ds @ x # ?rest)"
    by (simp add: template_def)
  from digitRun_bad_then[OF assms, of ?rest] show ?thesis
  proof
    assume "digitRun (ds @ x # ?rest) = None"
    then show ?thesis unfolding matchAt_def s by simp
  next
    assume "digitRun (ds @ x # ?rest) = Some (ds, x # ?rest)"
    then show ?thesis unfolding matchAt_def s using x by simp
  qed
qed

lemma matchAt_bad2:
  assumes a: "a \<noteq> []" "list_all isDigit a"
    and "list_all isDigit ds" "x = CHR ''-'' \<or> x = CHR ''.''"
  shows "matchAt (template a (ds @ x # r) c) = None"
proof -
  let ?rest = "r @ CHR ''%'' # CHR '','' # CHR '' '' # c @ ''%)''"
  have x: "x \<noteq> CHR ''%''" using assms(4) by auto
  have nc: "list_all numChar (ds @ [x])"
    using digits_numChar[OF assms(3)] assms(4) by (auto simp: numChar_def)
  have s: "stripPrefix ''hsl('' (template a (ds @ x # r) c)
        = Some (a @ CHR '','' # CHR '' '' # ds @ x # ?rest)"
    by (simp add: template_def)
  have 1: "digitRun (a @ CHR '','' # CHR '' '' # ds @ x # ?rest)
        = Some (a, CHR '','' # CHR '' '' # ds @ x # ?rest)"
    by (rule digitRun_append[OF a not_digit_punct(1)])
  have 2: "skipSpaces (CHR '' '' # ds @ x # ?rest) = ds @ x # ?rest"
    using skipSpaces_text[of "ds @ [x]" ?rest, OF _ nc] by simp
  from digitRun_bad_then[OF assms(3,4), of ?rest] show ?thesis
  proof
    assume "digitRun (ds @ x # ?rest) = None"
    then show ?thesis unfolding matchAt_def s by (simp add: 1 2)
  next
    assume "digitRun (ds @ x # ?rest) = Some (ds, x # ?rest)"
    then show ?thesis unfolding matchAt_def s using x by (simp add: 1 2)
  qed
qed

lemma matchAt_bad3:
  assumes a: "a \<noteq> []" "list_all isDigit a" and b: "b \<noteq> []" "list_all isDigit b"
    and "list_all isDigit ds" "x = CHR ''-'' \<or> x = CHR ''.''"
  shows "matchAt (template a b (ds @ x # r)) = None"
proof -
  let ?rest = "r @ ''%)''"
  have x: "x \<noteq> CHR ''%''" using assms(6) by auto
  have nc: "list_all numChar (ds @ [x])"
    using digits_numChar[OF assms(5)] assms(6) by (auto simp: numChar_def)
  have s: "stripPrefix ''hsl('' (template a b (ds @ x # r))
        = Some (a @ CHR '','' # CHR '' '' # b @ CHR ''%'' # CHR '','' # CHR '' '' # ds @ x # ?rest)"
    by (simp add: template_def)
  have 1: "digitRun (a @ CHR '','' # CHR '' '' # b @ CHR ''%'' # CHR '','' # CHR '' '' # ds @ x # ?rest)
        = Some (a, CHR '','' # CHR '' '' # b @ CHR ''%'' # CHR '','' # CHR '' '' # ds @ x # ?rest)"
    by (rule digitRun_append[OF a not_digit_punct(1)])
  have 2: "skipSpaces (CHR '' '' # b @ CHR ''%'' # CHR '','' # CHR '' '' # ds @ x # ?rest)
        = b @ CHR ''%'' # CHR '','' # CHR '' '' # ds @ x # ?rest"
    by (rule skipSpaces_text[OF b(1) digits_numChar[OF b(2)]])
  have 3: "digitRun (b @ CHR ''%'' # CHR '','' # CHR '' '' # ds @ x # ?rest)
        = Some (b, CHR ''%'' # CHR '','' # CHR '' '' # ds @ x # ?rest)"
    by (rule digitRun_append[OF b not_digit_punct(2)])
  have 4: "skipSpaces (CHR '' '' # ds @ x # ?rest) = ds @ x # ?rest"
    using skipSpaces_text[of "ds @ [x]" ?rest, OF _ nc] by simp
  from digitRun_bad_then[OF assms(5,6), of ?rest] show ?thesis
  proof
    assume "digitRun (ds @ x # ?rest) = None"
    then show ?thesis unfolding matchAt_def s by (simp add: 1 2 3 4)
  next
    assume "digitRun (ds @ x # ?rest) = Some (ds, x # ?rest)"
    then show ?thesis unfolding matchAt_def s using x by (simp add: 1 2 3 4)
  qed
qed


lemma hslString_template:
  "hslString c = template (numberToString (hue c)) (numberToString (sat c)) (numberToString (light c))"
  by (simp add: hslString_def)

lemma matchHSL_hslString:
  "matchHSL (hslString c) =
     (if digitsOnly c
      then Some (natToString (nat \<lfloor>hue c\<rfloor>), natToString (nat \<lfloor>sat c\<rfloor>), natToString (nat \<lfloor>light c\<rfloor>))
      else None)"
proof -
  have m: "matchHSL (hslString c) = matchAt (hslString c)"
    unfolding hslString_template by (rule matchHSL_template) (rule numberToString_chars)+
  note nd = natToString_digits[THEN conjunct1] natToString_digits[THEN conjunct2]
  show ?thesis
  proof (cases "isNatural (hue c)")
    case False
    from numberToString_nonnatural[OF this] obtain ds x r where
      "numberToString (hue c) = ds @ x # r" "list_all isDigit ds" "x = CHR ''-'' \<or> x = CHR ''.''"
      by blast
    then have "matchAt (hslString c) = None"
      unfolding hslString_template by (simp add: matchAt_bad1)
    with False m show ?thesis by (simp add: digitsOnly_def)
  next
    case h: True
    show ?thesis
    proof (cases "isNatural (sat c)")
      case False
      from numberToString_nonnatural[OF this] obtain ds x r where
        "numberToString (sat c) = ds @ x # r" "list_all isDigit ds" "x = CHR ''-'' \<or> x = CHR ''.''"
        by blast
      then have "matchAt (hslString c) = None"
        unfolding hslString_template numberToString_natural[OF h]
        by (simp add: matchAt_bad2 nd)
      with False m show ?thesis by (simp add: digitsOnly_def)
    next
      case s: True
      show ?thesis
      proof (cases "isNatural (light c)")
        case False
        from numberToString_nonnatural[OF this] obtain ds x r where
          "numberToString (light c) = ds @ x # r" "list_all isDigit ds" "x = CHR ''-'' \<or> x = CHR ''.''"
          by blast
        then have "matchAt (hslString c) = None"
          unfolding hslString_template numberToString_natural[OF h] numberToString_natural[OF s]
          by (simp add: matchAt_bad3 nd)
        with False m show ?thesis by (simp add: digitsOnly_def)
      next
        case l: True
        have "matchAt (hslString c)
            = Some (natToString (nat \<lfloor>hue c\<rfloor>), natToString (nat \<lfloor>sat c\<rfloor>), natToString (nat \<lfloor>light c\<rfloor>))"
          unfolding hslString_template numberToString_natural[OF h] numberToString_natural[OF s]
            numberToString_natural[OF l]
          by (rule matchAt_good) (rule nd)+
        with h s l m show ?thesis by (simp add: digitsOnly_def)
      qed
    qed
  qed
qed

lemma parseHSL_hslString: "parseHSL (hslString c) = (if digitsOnly c then c else HSL 0 0 0)"
proof (cases "digitsOnly c")
  case True
  then have "hue c = real (nat \<lfloor>hue c\<rfloor>)" "sat c = real (nat \<lfloor>sat c\<rfloor>)" "light c = real (nat \<lfloor>light c\<rfloor>)"
    by (simp_all add: digitsOnly_def isNatural_iff[symmetric])
  then have "HSL (real (nat \<lfloor>hue c\<rfloor>)) (real (nat \<lfloor>sat c\<rfloor>)) (real (nat \<lfloor>light c\<rfloor>)) = c"
    by (cases c) simp
  with True show ?thesis
    by (simp add: parseHSL_def matchHSL_hslString parseInt_natToString)
next
  case False
  then show ?thesis by (simp add: parseHSL_def matchHSL_hslString)
qed


text \<open>Three colour strings as the template writes them.\<close>

lemma natToString_small: "n < 10 \<Longrightarrow> natToString n = [digitChar n]"
  by (subst natToString.simps) simp

lemma natToString_large:
  "\<not> n < 10 \<Longrightarrow> natToString n = natToString (n div 10) @ [digitChar (n mod 10)]"
  by (subst natToString.simps) simp

lemma fracDigits_numeral:
  "fracDigits (numeral k) x =
     (let d = nat \<lfloor>x * 10\<rfloor>
      in digitChar d #
         (if x * 10 = real d then [] else fracDigits (pred_numeral k) (x * 10 - real d)))"
  by (simp add: numeral_eq_Suc)

lemma hslString_examples:
  "hslString (HSL 30 46 33) = ''hsl(30, 46%, 33%)''"
  "hslString (HSL 150 36.8 29.7) = ''hsl(150, 36.8%, 29.7%)''"
  "hslString (HSL (- 15) 0 0) = ''hsl(-15, 0%, 0%)''"
  by (simp_all add: hslString_def template_def numberToString_def unsignedToString_def
      natToString_small natToString_large fracDigits_numeral digitChar_def Let_def)

subsection \<open>The strings that match\<close>

lemma stripPrefix_Some: "stripPrefix p s = Some r \<Longrightarrow> s = p @ r"
  by (induction p s rule: stripPrefix.induct) (auto split: if_splits)

lemma digitRun_Some:
  "digitRun s = Some (ds, r) \<Longrightarrow> s = ds @ r \<and> ds \<noteq> [] \<and> list_all isDigit ds"
  by (auto simp: digitRun_def Let_def list_all_iff split: if_splits dest: set_takeWhileD)

lemma skipSpaces_split: "\<exists>w. s = w @ skipSpaces s \<and> list_all isSpace w"
  by (rule exI[of _ "takeWhile isSpace s"])
    (auto simp: skipSpaces_def list_all_iff dest: set_takeWhileD)

lemma matchAt_Some:
  assumes "matchAt s = Some (g1, g2, g3)"
  shows "\<exists>w1 w2 post.
      s = ''hsl('' @ g1 @ '','' @ w1 @ g2 @ ''%,'' @ w2 @ g3 @ ''%)'' @ post
      \<and> g1 \<noteq> [] \<and> list_all isDigit g1 \<and> g2 \<noteq> [] \<and> list_all isDigit g2
      \<and> g3 \<noteq> [] \<and> list_all isDigit g3 \<and> list_all isSpace w1 \<and> list_all isSpace w2"
proof -
  from assms obtain s1 s2 s3 s4 s5 s6 s7 where
    1: "stripPrefix ''hsl('' s = Some s1" and 2: "digitRun s1 = Some (g1, s2)"
    and 3: "stripPrefix '','' s2 = Some s3" and 4: "digitRun (skipSpaces s3) = Some (g2, s4)"
    and 5: "stripPrefix ''%,'' s4 = Some s5" and 6: "digitRun (skipSpaces s5) = Some (g3, s6)"
    and 7: "stripPrefix ''%)'' s6 = Some s7"
    unfolding matchAt_def by (auto split: bind_splits prod.splits)
  from skipSpaces_split[of s3] obtain w1 where w1: "s3 = w1 @ skipSpaces s3" "list_all isSpace w1"
    by blast
  from skipSpaces_split[of s5] obtain w2 where w2: "s5 = w2 @ skipSpaces s5" "list_all isSpace w2"
    by blast
  note a = stripPrefix_Some[OF 1] digitRun_Some[OF 2] stripPrefix_Some[OF 3] digitRun_Some[OF 4]
    stripPrefix_Some[OF 5] digitRun_Some[OF 6] stripPrefix_Some[OF 7]
  have "s = ''hsl('' @ g1 @ '','' @ w1 @ g2 @ ''%,'' @ w2 @ g3 @ ''%)'' @ s7"
    using a w1(1) w2(1) by (metis append.assoc)
  with a w1(2) w2(2) show ?thesis by blast
qed

lemma matchHSL_Some: "matchHSL s = Some m \<Longrightarrow> \<exists>pre s'. s = pre @ s' \<and> matchAt s' = Some m"
proof (induction s)
  case Nil
  then show ?case by simp
next
  case (Cons c cs)
  show ?case
  proof (cases "matchAt (c # cs)")
    case (Some m')
    with Cons.prems have "matchAt (c # cs) = Some m" by simp
    then show ?thesis by (metis append_Nil)
  next
    case None
    with Cons.prems have "matchHSL cs = Some m" by simp
    from Cons.IH[OF this] obtain pre s' where "cs = pre @ s'" "matchAt s' = Some m" by blast
    then show ?thesis by (metis append_Cons)
  qed
qed

lemma parseHSL_accepts:
  assumes "parseHSL str \<noteq> HSL 0 0 0"
  shows "\<exists>pre g1 w1 g2 w2 g3 post.
      str = pre @ ''hsl('' @ g1 @ '','' @ w1 @ g2 @ ''%,'' @ w2 @ g3 @ ''%)'' @ post
      \<and> g1 \<noteq> [] \<and> list_all isDigit g1 \<and> g2 \<noteq> [] \<and> list_all isDigit g2
      \<and> g3 \<noteq> [] \<and> list_all isDigit g3 \<and> list_all isSpace w1 \<and> list_all isSpace w2
      \<and> parseHSL str = HSL (parseInt g1) (parseInt g2) (parseInt g3)"
proof -
  from assms obtain g1 g2 g3 where m: "matchHSL str = Some (g1, g2, g3)"
    by (auto simp: parseHSL_def split: option.splits)
  from matchHSL_Some[OF m] obtain pre s' where s: "str = pre @ s'" "matchAt s' = Some (g1, g2, g3)"
    by blast
  from matchAt_Some[OF s(2)] s(1) m show ?thesis
    by (auto simp: parseHSL_def) blast
qed

lemma skipSpaces_run:
  assumes "list_all isSpace w" "g \<noteq> []" "list_all isDigit g"
  shows "skipSpaces (w @ g @ rest) = g @ rest"
proof -
  from assms(2,3) obtain d g' where d: "g = d # g'" "isDigit d" by (cases g) auto
  then have nd: "\<not> isSpace d" by (auto simp: isDigit_def isSpace_def)
  have "dropWhile isSpace (w @ g @ rest) = dropWhile isSpace (g @ rest)"
    using assms(1) by (intro dropWhile_append2) (simp add: list_all_iff)
  also have "\<dots> = g @ rest" using d nd by simp
  finally show ?thesis by (simp add: skipSpaces_def)
qed

lemma matchAt_pattern:
  assumes g1: "g1 \<noteq> []" "list_all isDigit g1" and g2: "g2 \<noteq> []" "list_all isDigit g2"
    and g3: "g3 \<noteq> []" "list_all isDigit g3"
    and w1: "list_all isSpace w1" and w2: "list_all isSpace w2"
  shows "matchAt (''hsl('' @ g1 @ '','' @ w1 @ g2 @ ''%,'' @ w2 @ g3 @ ''%)'' @ post)
           = Some (g1, g2, g3)"
proof -
  let ?r3 = "CHR ''%'' # CHR '')'' # post"
  let ?r2 = "CHR ''%'' # CHR '','' # w2 @ g3 @ ?r3"
  let ?r1 = "CHR '','' # w1 @ g2 @ ?r2"
  have s: "stripPrefix ''hsl('' (''hsl('' @ g1 @ '','' @ w1 @ g2 @ ''%,'' @ w2 @ g3 @ ''%)'' @ post)
        = Some (g1 @ ?r1)"
    by simp
  have 1: "digitRun (g1 @ ?r1) = Some (g1, ?r1)"
    by (rule digitRun_append[OF g1 not_digit_punct(1)])
  have 2: "skipSpaces (w1 @ g2 @ ?r2) = g2 @ ?r2"
    by (rule skipSpaces_run[OF w1 g2])
  have 3: "digitRun (g2 @ ?r2) = Some (g2, ?r2)"
    by (rule digitRun_append[OF g2 not_digit_punct(2)])
  have 4: "skipSpaces (w2 @ g3 @ ?r3) = g3 @ ?r3"
    by (rule skipSpaces_run[OF w2 g3])
  have 5: "digitRun (g3 @ ?r3) = Some (g3, ?r3)"
    by (rule digitRun_append[OF g3 not_digit_punct(2)])
  show ?thesis
    unfolding matchAt_def s by (simp add: 1 2 3 4 5)
qed

lemma matchHSL_append: "matchAt s' = Some m \<Longrightarrow> matchHSL (pre @ s') \<noteq> None"
proof (induction pre)
  case Nil
  then show ?case by (cases s') (simp_all add: matchAt_Nil)
next
  case (Cons c pre)
  then show ?case by (cases "matchAt (c # pre @ s')") simp_all
qed

lemma matchHSL_iff:
  "matchHSL str \<noteq> None \<longleftrightarrow>
     (\<exists>pre g1 w1 g2 w2 g3 post.
        str = pre @ ''hsl('' @ g1 @ '','' @ w1 @ g2 @ ''%,'' @ w2 @ g3 @ ''%)'' @ post
        \<and> g1 \<noteq> [] \<and> list_all isDigit g1 \<and> g2 \<noteq> [] \<and> list_all isDigit g2
        \<and> g3 \<noteq> [] \<and> list_all isDigit g3 \<and> list_all isSpace w1 \<and> list_all isSpace w2)"
proof
  assume "matchHSL str \<noteq> None"
  then obtain g1 g2 g3 where m: "matchHSL str = Some (g1, g2, g3)" by (cases "matchHSL str") auto
  from matchHSL_Some[OF m] obtain pre s' where s: "str = pre @ s'" "matchAt s' = Some (g1, g2, g3)"
    by blast
  from matchAt_Some[OF s(2)] s(1) show "\<exists>pre g1 w1 g2 w2 g3 post.
        str = pre @ ''hsl('' @ g1 @ '','' @ w1 @ g2 @ ''%,'' @ w2 @ g3 @ ''%)'' @ post
        \<and> g1 \<noteq> [] \<and> list_all isDigit g1 \<and> g2 \<noteq> [] \<and> list_all isDigit g2
        \<and> g3 \<noteq> [] \<and> list_all isDigit g3 \<and> list_all isSpace w1 \<and> list_all isSpace w2"
    by blast
next
  assume "\<exists>pre g1 w1 g2 w2 g3 post.
        str = pre @ ''hsl('' @ g1 @ '','' @ w1 @ g2 @ ''%,'' @ w2 @ g3 @ ''%)'' @ post
        \<and> g1 \<noteq> [] \<and> list_all isDigit g1 \<and> g2 \<noteq> [] \<and> list_all isDigit g2
        \<and> g3 \<noteq> [] \<and> list_all isDigit g3 \<and> list_all isSpace w1 \<and> list_all isSpace w2"
  then obtain pre g1 w1 g2 w2 g3 post where
    str: "str = pre @ ''hsl('' @ g1 @ '','' @ w1 @ g2 @ ''%,'' @ w2 @ g3 @ ''%)'' @ post"
    and c: "g1 \<noteq> []" "list_all isDigit g1" "g2 \<noteq> []" "list_all isDigit g2"
      "g3 \<noteq> []" "list_all isDigit g3" "list_all isSpace w1" "list_all isSpace w2"
    by blast
  from matchAt_pattern[OF c, of post] show "matchHSL str \<noteq> None"
    unfolding str by (rule matchHSL_append)
qed

section \<open>Properties of the Color Brain\<close>

subsection \<open>Channel bounds\<close>












subsection \<open>Palette bounds\<close>
















subsection \<open>Particle count\<close>

lemma length_generateParticleColors:
  "length (generateParticleColors rnd h s l f) = nat \<lfloor>3 + energy f * 5\<rfloor>"
  by (simp add: generateParticleColors_def Let_def)

lemma length_addComplexity: "length (addComplexity rnd ps) = length ps + min 5 (length ps div 2)"
  by (simp add: addComplexity_def Let_def)

lemma length_particles_refine:
  "length (particles (refineForContext rnd p c)) =
     (if instrumentalDensity c > 0.7
      then length (particles p) + min 5 (length (particles p) div 2)
      else length (particles p))"
  by (simp add: refineForContext_def Let_def intensifyPalette_def addWarmth_def
      adjustSaturation_def length_addComplexity)

lemma length_particles_smooth:
  "length (particles (smoothTransition st p)) = length (particles p)"
  by (simp add: smoothTransition_def Let_def)

lemma length_particles_raw:
  "length (particles (rawPalette rnd f c)) =
     (if instrumentalDensity c > 0.7
      then nat \<lfloor>3 + energy f * 5\<rfloor> + min 5 (nat \<lfloor>3 + energy f * 5\<rfloor> div 2)
      else nat \<lfloor>3 + energy f * 5\<rfloor>)"
  by (simp add: rawPalette_def Let_def length_particles_refine createBasePalette_def
      length_generateParticleColors)

text \<open>
  Claim C6, amended. For an energy in [0,1] the palette returned by \<open>generatePalette\<close>
  has floor(3 + energy * 5) particles, a number in [3,8], when the instrumental density is
  at most 0.7, and min(5, floor(count / 2)) more when it is above 0.7, so between 3 and 12
  in all; the number depends on the current energy and density only, in every state of
  the palette history.
\<close>

theorem particle_count:
  assumes "0 \<le> energy features" "energy features \<le> 1"
  shows "length (particles (fst (generatePalette rnd st features context))) =
           (if instrumentalDensity context > 0.7
            then nat \<lfloor>3 + energy features * 5\<rfloor> + min 5 (nat \<lfloor>3 + energy features * 5\<rfloor> div 2)
            else nat \<lfloor>3 + energy features * 5\<rfloor>)
         \<and> 3 \<le> nat \<lfloor>3 + energy features * 5\<rfloor> \<and> nat \<lfloor>3 + energy features * 5\<rfloor> \<le> 8
         \<and> 3 \<le> length (particles (fst (generatePalette rnd st features context)))
         \<and> length (particles (fst (generatePalette rnd st features context))) \<le> 12"
proof -
  have "3 \<le> \<lfloor>3 + energy features * 5\<rfloor>" "\<lfloor>3 + energy features * 5\<rfloor> \<le> 8"
    using assms by (simp_all add: le_floor_iff floor_le_iff)
  then have n: "3 \<le> nat \<lfloor>3 + energy features * 5\<rfloor>" "nat \<lfloor>3 + energy features * 5\<rfloor> \<le> 8"
    by linarith+
  have l: "length (particles (fst (generatePalette rnd st features context))) =
           (if instrumentalDensity context > 0.7
            then nat \<lfloor>3 + energy features * 5\<rfloor> + min 5 (nat \<lfloor>3 + energy features * 5\<rfloor> div 2)
            else nat \<lfloor>3 + energy features * 5\<rfloor>)"
    by (simp add: generatePalette_def Let_def length_particles_smooth length_particles_raw)
  show ?thesis unfolding l using n by auto
qed

subsection \<open>Palette history\<close>

lemma colorHistory_generatePalette:
  "colorHistory (snd (generatePalette rnd st f c)) =
     pushCapped 10 (colorHistory st) (fst (generatePalette rnd st f c))"
  by (simp add: generatePalette_def Let_def ColorBrain_updateHistory_def)

lemma colorHistory_setTransitionSpeed:
  "colorHistory (setTransitionSpeed st s) = colorHistory st"
  by (simp add: setTransitionSpeed_def)

lemma callColorBrain_snoc:
  "callColorBrain st (calls @ [call]) =
     (case call of
        GeneratePalette rnd f c \<Rightarrow>
          (fst (callColorBrain st calls) @ [fst (generatePalette rnd (snd (callColorBrain st calls)) f c)],
           snd (generatePalette rnd (snd (callColorBrain st calls)) f c))
      | SetTransitionSpeed s \<Rightarrow>
          (fst (callColorBrain st calls), setTransitionSpeed (snd (callColorBrain st calls)) s))"
proof (induction calls arbitrary: st)
  case Nil
  then show ?case by (cases call) (simp_all add: split_beta Let_def)
next
  case (Cons a calls)
  then show ?case by (cases a; cases call) (simp_all add: split_beta Let_def)
qed

lemma palette_history_is_recent:
  "colorHistory (snd (callColorBrain initialColorBrain calls)) =
     sliceLast (fst (callColorBrain initialColorBrain calls)) 10"
proof (induction calls rule: rev_induct)
  case Nil
  then show ?case by (simp add: initialColorBrain_def sliceLast_def)
next
  case (snoc call calls)
  show ?case
    by (cases call)
      (simp_all add: callColorBrain_snoc colorHistory_generatePalette
        colorHistory_setTransitionSpeed snoc.IH pushCapped_sliceLast)
qed

lemma length_sliceLast: "length (sliceLast xs n) \<le> n"
  by (simp add: sliceLast_def)

text \<open>
  Claim C8. After any sequence of frames from the initial state, \<open>beatHistory\<close> and
  \<open>energyHistory\<close> hold at most 20 entries and are exactly the last 20 rhythm and energy
  values returned, in order; after any sequence of calls of \<open>generatePalette\<close> and
  \<open>setTransitionSpeed\<close> from the initial state, the palette history holds at most 10
  entries and is exactly the last 10 palettes returned, in order. The oldest entry is the
  one that leaves.
\<close>

theorem history_buffers_bounded:
  "length (beatHistory (snd (analyzeFrames initialMusicBrain frames))) \<le> 20
   \<and> length (energyHistory (snd (analyzeFrames initialMusicBrain frames))) \<le> 20
   \<and> beatHistory (snd (analyzeFrames initialMusicBrain frames)) =
       sliceLast (map (\<lambda>r. rhythm (fst r)) (fst (analyzeFrames initialMusicBrain frames))) 20
   \<and> energyHistory (snd (analyzeFrames initialMusicBrain frames)) =
       sliceLast (map (\<lambda>r. energy (fst r)) (fst (analyzeFrames initialMusicBrain frames))) 20
   \<and> length (colorHistory (snd (callColorBrain initialColorBrain calls))) \<le> 10
   \<and> colorHistory (snd (callColorBrain initialColorBrain calls)) =
       sliceLast (fst (callColorBrain initialColorBrain calls)) 10"
  by (simp add: history_is_recent energy_history_is_recent palette_history_is_recent
      length_sliceLast)

subsection \<open>Scenario B through the palette generator\<close>

lemma upt8: "[0..<8] = [0, 1, 2, 3, 4, 5, 6, 7]" "[0..<4] = [0, 1, 2, 3]" "[0..<3] = [0, 1, 2]"
  by (simp_all add: upt_rec)

lemma not_natural_half: "\<not> isNatural (185 / 2)"
  by (simp add: isNatural_def)

lemma base_B:
  "createBasePalette (pinnedRandom (1/4)) scenarioB_features scenarioB_context
      (analyzeMood scenarioB_features scenarioB_context) =
   \<lparr>primary = HSL 300 100 80, secondary = HSL 60 80 72, accent = HSL 180 120 88,
     background = HSL 120 30 16, glow = HSL 300 150 104,
     particles = [HSL 300 92.5 70, HSL 345 92.5 70, HSL 30 92.5 70, HSL 75 92.5 70,
                  HSL 120 92.5 70, HSL 165 92.5 70, HSL 210 92.5 70, HSL 255 92.5 70]\<rparr>"
  by (simp add: createBasePalette_def analyzeMood_def Let_def scenarioB_features_def
      scenarioB_context_def baseHueOf_def jsMod_def generateParticleColors_def upt8
      pinnedRandom_def)


lemma parse_digits: "digitsOnly c \<Longrightarrow> parseHSL (hslString c) = c"
  by (simp add: parseHSL_hslString)

lemma parse_fraction: "\<not> digitsOnly c \<Longrightarrow> parseHSL (hslString c) = HSL 0 0 0"
  by (simp add: parseHSL_hslString)

lemma warmify_B:
  "warmify 0.3 (HSL 300 100 80) = HSL 228 100 80"
  "warmify 0.3 (HSL 60 80 72) = HSL 60 80 72"
  "warmify 0.3 (HSL 300 150 104) = HSL 228 150 104"
  by (simp_all add: warmify_def Let_def parse_digits digitsOnly_def isNatural_def
      shiftTowardsWarmth_def jsMod_def)

lemma addComplexity_8:
  assumes "length ps = 8"
  shows "addComplexity rnd ps =
     ps @ map (\<lambda>i. HSL (jsMod (hue (parseHSL (hslString (ps ! i))) + (rnd i - 0.5) * 60) 360)
                     (sat (parseHSL (hslString (ps ! i)))) (light (parseHSL (hslString (ps ! i)))))
            [0, 1, 2, 3]"
  by (simp add: addComplexity_def Let_def assms upt8)

lemma complexity_B:
  "addComplexity (pinnedRandom (1/4))
     [HSL 300 (185/2) 70, HSL 345 (185/2) 70, HSL 30 (185/2) 70, HSL 75 (185/2) 70,
      HSL 120 (185/2) 70, HSL 165 (185/2) 70, HSL 210 (185/2) 70, HSL 255 (185/2) 70] =
     [HSL 300 (185/2) 70, HSL 345 (185/2) 70, HSL 30 (185/2) 70, HSL 75 (185/2) 70,
      HSL 120 (185/2) 70, HSL 165 (185/2) 70, HSL 210 (185/2) 70, HSL 255 (185/2) 70,
      HSL (- 15) 0 0, HSL (- 15) 0 0, HSL (- 15) 0 0, HSL (- 15) 0 0]"
  by (subst addComplexity_8)
    (simp_all add: parse_fraction digitsOnly_def not_natural_half pinnedRandom_def jsMod_def)

lemma raw_B:
  "rawPalette (pinnedRandom (1/4)) scenarioB_features scenarioB_context =
   \<lparr>primary = HSL 228 100 80, secondary = HSL 60 80 72, accent = HSL 180 120 88,
     background = HSL 120 30 16, glow = HSL 228 150 104,
     particles = [HSL 300 92.5 70, HSL 345 92.5 70, HSL 30 92.5 70, HSL 75 92.5 70,
                  HSL 120 92.5 70, HSL 165 92.5 70, HSL 210 92.5 70, HSL 255 92.5 70,
                  HSL (- 15) 0 0, HSL (- 15) 0 0, HSL (- 15) 0 0, HSL (- 15) 0 0]\<rparr>"
proof -
  have r: "(\<lambda>k. pinnedRandom (1/4) (n + k)) = pinnedRandom (1/4)" for n
    by (simp add: pinnedRandom_def fun_eq_iff)
  show ?thesis
    unfolding rawPalette_def Let_def base_B r
    by (simp add: refineForContext_def Let_def scenarioB_context_def addWarmth_def warmify_B
        complexity_B)
qed


text \<open>
  Claim C6 as stated fails on the same input: the energy is 1, the instrumental density
  is 1, and the palette has 8 + 4 = 12 particles.
\<close>

theorem scenarioB_twelve_particles:
  "0 \<le> energy scenarioB_features \<and> energy scenarioB_features \<le> 1
   \<and> length (particles (fst (generatePalette (pinnedRandom (1/4)) initialColorBrain
        scenarioB_features scenarioB_context))) = 12"
proof -
  have "0 \<le> energy scenarioB_features \<and> energy scenarioB_features \<le> 1"
    by (simp add: scenarioB_features_def)
  then show ?thesis
    by (simp add: generatePalette_def Let_def raw_B smoothTransition_def initialColorBrain_def)
qed

text \<open>The amended claim C6 at energy 1 and density 1/2: 8 particles.\<close>

theorem particle_count_witness:
  "0 \<le> energy scenarioB_features \<and> energy scenarioB_features \<le> 1
   \<and> length (particles (fst (generatePalette (pinnedRandom (1/2)) initialColorBrain
        scenarioB_features (scenarioB_context\<lparr>instrumentalDensity := 1/2\<rparr>)))) = 8"
proof -
  have e: "0 \<le> energy scenarioB_features" "energy scenarioB_features \<le> 1"
    by (simp_all add: scenarioB_features_def)
  from particle_count[OF e, of "pinnedRandom (1/2)" initialColorBrain
      "scenarioB_context\<lparr>instrumentalDensity := 1/2\<rparr>"] e
  show ?thesis by (simp add: scenarioB_features_def)
qed


subsection \<open>Smoothing and parsing\<close>

lemma raw_quiet: "rawPalette (pinnedRandom (1/2)) quiet_features quiet_context = quiet_raw"
  by (simp add: rawPalette_def Let_def createBasePalette_def analyzeMood_def quiet_features_def
      quiet_context_def baseHueOf_def jsMod_def generateParticleColors_def upt8 pinnedRandom_def
      refineForContext_def quiet_raw_def)

lemma blend_quiet:
  "blend 0.1 (HSL 30 46 33) (HSL 30 46 33) = HSL 30 46 33"
  "blend 0.1 (HSL 150 46 33) (HSL 150 46 33) = HSL 150 46 33"
  "blend 0.1 (HSL 270 46 33) (HSL 270 46 33) = HSL 270 46 33"
  "blend 0.1 (HSL 150 (184/5) (297/10)) (HSL 150 (184/5) (297/10)) = HSL 0 0 0"
  "blend 0.1 (HSL 270 (276/5) (363/10)) (HSL 270 (276/5) (363/10)) = HSL 0 0 0"
  "blend 0.1 (HSL 210 (69/5) (33/5)) (HSL 210 (69/5) (33/5)) = HSL 0 0 0"
  "blend 0.1 (HSL 30 69 (429/10)) (HSL 30 69 (429/10)) = HSL 0 0 0"
  "blend 0.1 (HSL 0 0 0) (HSL 150 (184/5) (297/10)) = HSL 0 0 0"
  "blend 0.1 (HSL 0 0 0) (HSL 270 (276/5) (363/10)) = HSL 0 0 0"
  "blend 0.1 (HSL 0 0 0) (HSL 210 (69/5) (33/5)) = HSL 0 0 0"
  "blend 0.1 (HSL 0 0 0) (HSL 30 69 (429/10)) = HSL 0 0 0"
  by (simp_all add: blend_def Let_def parseHSL_hslString digitsOnly_def isNatural_def
      interpolateHue_def jsMod_def)

lemma smooth_quiet:
  "smoothTransition initialColorBrain quiet_raw = quiet_raw"
  "smoothTransition \<lparr>colorHistory = [quiet_raw], transitionSpeed = 0.1\<rparr> quiet_raw = quiet_smoothed"
  "smoothTransition \<lparr>colorHistory = [quiet_raw, quiet_smoothed], transitionSpeed = 0.1\<rparr> quiet_raw
     = quiet_smoothed"
  by (simp_all add: smoothTransition_def initialColorBrain_def Let_def quiet_raw_def
      quiet_smoothed_def blend_quiet upt8)

text \<open>
  Claim C3 on a constant input: the features and the context of a uniform frame of
  samples 0.05, with every random number equal to 1/2. The first call returns the
  unsmoothed palette. The second call blends that palette with itself; \<open>parseHSL\<close> reads
  the colours with a fractional channel (secondary, accent, background, glow) as
  \<open>{h: 0, s: 0, l: 0}\<close>, and they come back as \<open>hsl(0, 0%, 0%)\<close>. The third call returns the
  same palette as the second: the sequence stays there and does not return to the
  unsmoothed palette.
\<close>

theorem smoothing_loses_fractional_colours:
  "fst (callColorBrain initialColorBrain
     [GeneratePalette (pinnedRandom (1/2)) quiet_features quiet_context,
      GeneratePalette (pinnedRandom (1/2)) quiet_features quiet_context,
      GeneratePalette (pinnedRandom (1/2)) quiet_features quiet_context])
   = [quiet_raw, quiet_smoothed, quiet_smoothed]
   \<and> rawPalette (pinnedRandom (1/2)) quiet_features quiet_context = quiet_raw
   \<and> secondary quiet_raw = HSL 150 36.8 29.7
   \<and> secondary quiet_smoothed = HSL 0 0 0
   \<and> smoothTransition \<lparr>colorHistory = [quiet_raw], transitionSpeed = 0.1\<rparr> quiet_raw \<noteq> quiet_raw"
proof -
  have neq: "quiet_smoothed \<noteq> quiet_raw"
    by (simp add: quiet_raw_def quiet_smoothed_def)
  have i: "initialColorBrain = \<lparr>colorHistory = [], transitionSpeed = 0.1\<rparr>"
    by (simp add: initialColorBrain_def)
  have s0: "smoothTransition \<lparr>colorHistory = [], transitionSpeed = 0.1\<rparr> quiet_raw = quiet_raw"
    using smooth_quiet(1) by (simp add: initialColorBrain_def)
  have "fst (callColorBrain initialColorBrain
     [GeneratePalette (pinnedRandom (1/2)) quiet_features quiet_context,
      GeneratePalette (pinnedRandom (1/2)) quiet_features quiet_context,
      GeneratePalette (pinnedRandom (1/2)) quiet_features quiet_context])
   = [quiet_raw, quiet_smoothed, quiet_smoothed]"
    unfolding i
    by (simp add: split_beta Let_def generatePalette_def raw_quiet s0 smooth_quiet(2,3)
        ColorBrain_updateHistory_def pushCapped_def)
  then show ?thesis
    using neq by (simp add: raw_quiet smooth_quiet(2)) (simp add: quiet_raw_def quiet_smoothed_def)
qed

text \<open>
  Claim C10, amended. \<open>parseHSL\<close> finds its pattern in exactly the strings that hold, at any
  position, \<open>hsl(\<close>, a digit run, a comma, any white space, a digit run, \<open>%,\<close>, any white
  space, a digit run and \<open>%)\<close>: the pattern is not anchored, so text before and after it is
  accepted. Every other string gives \<open>{h: 0, s: 0, l: 0}\<close>. For a colour string built by
  the template the pattern is found exactly when each channel is written with digits only,
  that is when each is a natural number; as soon as one channel has a fraction or a sign
  the result is \<open>{h: 0, s: 0, l: 0}\<close>. So \<open>intensify\<close>, \<open>warmify\<close> and \<open>adjust\<close> turn a colour
  with a fractional channel into \<open>hsl(0, 0%, 0%)\<close>, and \<open>blend\<close> treats it as that colour.
\<close>

theorem parseHSL_integers_only:
  "(matchHSL str \<noteq> None \<longleftrightarrow>
     (\<exists>pre g1 w1 g2 w2 g3 post.
        str = pre @ ''hsl('' @ g1 @ '','' @ w1 @ g2 @ ''%,'' @ w2 @ g3 @ ''%)'' @ post
        \<and> g1 \<noteq> [] \<and> list_all isDigit g1 \<and> g2 \<noteq> [] \<and> list_all isDigit g2
        \<and> g3 \<noteq> [] \<and> list_all isDigit g3 \<and> list_all isSpace w1 \<and> list_all isSpace w2))
   \<and> (matchHSL str = None \<longrightarrow> parseHSL str = HSL 0 0 0)
   \<and> (parseHSL str \<noteq> HSL 0 0 0 \<longrightarrow>
        (\<exists>pre g1 w1 g2 w2 g3 post.
           str = pre @ ''hsl('' @ g1 @ '','' @ w1 @ g2 @ ''%,'' @ w2 @ g3 @ ''%)'' @ post
           \<and> g1 \<noteq> [] \<and> list_all isDigit g1 \<and> g2 \<noteq> [] \<and> list_all isDigit g2
           \<and> g3 \<noteq> [] \<and> list_all isDigit g3 \<and> list_all isSpace w1 \<and> list_all isSpace w2
           \<and> parseHSL str = HSL (parseInt g1) (parseInt g2) (parseInt g3)))
   \<and> parseHSL (hslString c) = (if digitsOnly c then c else HSL 0 0 0)
   \<and> (\<not> digitsOnly c \<longrightarrow>
        intensify k c = HSL 0 0 0
      \<and> warmify a c = HSL 0 0 0
      \<and> adjust k c = HSL 0 0 0
      \<and> blend t c c2 = blend t (HSL 0 0 0) c2
      \<and> blend t c1 c = blend t c1 (HSL 0 0 0))"
proof -
  have z: "digitsOnly (HSL 0 0 0)" by (simp add: digitsOnly_def isNatural_def)
  have w: "shiftTowardsWarmth 0 a = 0"
    by (simp add: shiftTowardsWarmth_def Let_def jsMod_def)
  have n: "matchHSL str = None \<longrightarrow> parseHSL str = HSL 0 0 0"
    by (simp add: parseHSL_def)
  have f: "\<not> digitsOnly c \<longrightarrow>
        intensify k c = HSL 0 0 0
      \<and> warmify a c = HSL 0 0 0
      \<and> adjust k c = HSL 0 0 0
      \<and> blend t c c2 = blend t (HSL 0 0 0) c2
      \<and> blend t c1 c = blend t c1 (HSL 0 0 0)"
    by (simp add: parseHSL_hslString intensify_def warmify_def adjust_def blend_def Let_def z w)
  from matchHSL_iff[of str] parseHSL_accepts[of str] n f parseHSL_hslString[of c]
  show ?thesis by blast
qed

text \<open>
  Claim C10 as stated fails: a string with text around the pattern, no space after the
  first comma and two after the second is not of the form \<open>hsl(7, 8%, 9%)\<close>, and
  \<open>parseHSL\<close> reads its three channels.
\<close>

theorem parseHSL_accepts_pattern_anywhere:
  "parseHSL ''xxhsl(7,8%,  9%)yy'' = HSL 7 8 9
   \<and> parseHSL ''xxhsl(7,8%,  9%)yy'' \<noteq> HSL 0 0 0
   \<and> ''xxhsl(7,8%,  9%)yy'' \<noteq> ''hsl(7, 8%, 9%)''"
  by (simp add: parseHSL_def matchAt_def digitRun_def skipSpaces_def isDigit_def isSpace_def
      parseInt_def digitValue_def)

text \<open>The amended claim C10 on the accent of Scenario B with its lightness scaled once more,
  on a string without the pattern and on a string with it.\<close>

theorem parseHSL_integers_only_witness:
  "matchHSL ''rgb(1, 2, 3)'' = None \<and> parseHSL ''rgb(1, 2, 3)'' = HSL 0 0 0
   \<and> \<not> digitsOnly (HSL 180 120 (176/2 * 1.1))
   \<and> parseHSL (hslString (HSL 180 120 (176/2 * 1.1))) = HSL 0 0 0
   \<and> intensify 1.5 (HSL 180 120 (176/2 * 1.1)) = HSL 0 0 0
   \<and> parseHSL (hslString (HSL 180 120 88)) = HSL 180 120 88
   \<and> parseHSL ''hsl(30, 46%, 33%)'' \<noteq> HSL 0 0 0
   \<and> (\<exists>pre g1 w1 g2 w2 g3 post.
         ''hsl(30, 46%, 33%)'' = pre @ ''hsl('' @ g1 @ '','' @ w1 @ g2 @ ''%,'' @ w2 @ g3 @ ''%)'' @ post
         \<and> list_all isDigit g1 \<and> list_all isDigit g2 \<and> list_all isDigit g3)"
proof -
  have m: "matchHSL ''rgb(1, 2, 3)'' = None" by (simp add: matchAt_def)
  have d: "\<not> digitsOnly (HSL 180 120 (176/2 * 1.1))" by (simp add: digitsOnly_def isNatural_def)
  have e: "digitsOnly (HSL 180 120 88)" by (simp add: digitsOnly_def isNatural_def)
  have p: "parseHSL ''hsl(30, 46%, 33%)'' \<noteq> HSL 0 0 0"
    by (simp add: parseHSL_def matchAt_def digitRun_def skipSpaces_def isDigit_def isSpace_def
        parseInt_def digitValue_def)
  from parseHSL_integers_only[where c = "HSL 180 120 (176/2 * 1.1)" and str = "''rgb(1, 2, 3)''"
      and k = "1.5"] m d
  have 1: "parseHSL ''rgb(1, 2, 3)'' = HSL 0 0 0"
    "parseHSL (hslString (HSL 180 120 (176/2 * 1.1))) = HSL 0 0 0"
    "intensify 1.5 (HSL 180 120 (176/2 * 1.1)) = HSL 0 0 0"
    by simp_all
  from parseHSL_integers_only[where c = "HSL 180 120 88" and str = "''hsl(30, 46%, 33%)''"] e p
  have 2: "parseHSL (hslString (HSL 180 120 88)) = HSL 180 120 88"
    and 3: "\<exists>pre g1 w1 g2 w2 g3 post.
         ''hsl(30, 46%, 33%)'' = pre @ ''hsl('' @ g1 @ '','' @ w1 @ g2 @ ''%,'' @ w2 @ g3 @ ''%)'' @ post
         \<and> list_all isDigit g1 \<and> list_all isDigit g2 \<and> list_all isDigit g3"
    by (simp, blast)
  from m d 1 2 3 p show ?thesis by blast
qed

section \<open>Properties of the neural render mode\<close>

lemma length_createNodes: "length (createNodes cx cy data tm) = 20"
  by (simp add: createNodes_def Let_def)

lemma set_drawConnections:
  "set (drawConnections nodes) =
     {(i, j). i < j \<and> j < length nodes \<and> connects (nodes ! i) (nodes ! j)}"
  by (auto simp: drawConnections_def split: if_splits)

text \<open>
  Claim C9, amended. In the neural mode a line is stroked between the nodes i < j exactly
  when their euclidean distance is below 150 and at least one of the two intensities
  exceeds 0.3.
\<close>

theorem neural_connection_rule:
  "(i, j) \<in> set (neuralConnections centerX centerY data tm) \<longleftrightarrow>
     i < j \<and> j < 20 \<and>
     distance (createNodes centerX centerY data tm ! i) (createNodes centerX centerY data tm ! j) < 150 \<and>
     (intensity (createNodes centerX centerY data tm ! i) > 0.3
      \<or> intensity (createNodes centerX centerY data tm ! j) > 0.3)"
  by (simp add: neuralConnections_def set_drawConnections length_createNodes connects_def)

lemma createNodes_nth:
  "i < 20 \<Longrightarrow> createNodes cx cy data tm ! i =
     Node (cx + cos ((real i / 20) * pi * 2) * (100 + sin (tm + real i) * 50))
          (cy + sin ((real i / 20) * pi * 2) * (100 + sin (tm + real i) * 50))
          (sampleOr0 data (i * (length data div 20)))"
  by (simp add: createNodes_def Let_def)

lemma cos_pi_10: "1 / 2 \<le> cos (pi / 10)"
proof -
  have "cos (pi / 3) \<le> cos (pi / 10)"
    by (rule cos_monotone_0_pi_le) simp_all
  then show ?thesis by (simp add: cos_60)
qed

lemma sin_1_bounds: "0 \<le> sin (1::real)" "sin (1::real) \<le> 1"
proof -
  have "(1::real) \<le> pi" using pi_ge_two by linarith
  then show "0 \<le> sin (1::real)" by (intro sin_ge_zero) simp_all
  show "sin (1::real) \<le> 1" by (rule sin_le_one)
qed

lemma near_nodes:
  fixes r c s :: real
  assumes r: "100 \<le> r" "r \<le> 150" and c: "1 / 2 \<le> c" and cs: "c\<^sup>2 + s\<^sup>2 = 1"
  shows "sqrt ((100 - c * r)\<^sup>2 + (0 - s * r)\<^sup>2) < 150"
proof -
  have e: "(100 - c * r)\<^sup>2 + (0 - s * r)\<^sup>2 = 10000 - 200 * r * c + (c\<^sup>2 + s\<^sup>2) * r\<^sup>2"
    by (simp add: power2_eq_square algebra_simps)
  have "r * (1 / 2) \<le> r * c" using r c by (intro mult_left_mono) simp_all
  then have 1: "100 * r \<le> 200 * r * c" by (simp add: algebra_simps)
  have "r * (r - 100) \<le> 150 * 50"
    using r by (intro mult_mono) simp_all
  then have 2: "r\<^sup>2 - 100 * r \<le> 7500" by (simp add: power2_eq_square algebra_simps)
  have "10000 - 200 * r * c + r\<^sup>2 < 22500" using 1 2 by linarith
  then have "(100 - c * r)\<^sup>2 + (0 - s * r)\<^sup>2 < 150\<^sup>2"
    unfolding e cs by simp
  then show ?thesis by (intro real_less_lsqrt) simp_all
qed

text \<open>
  Claim C9 as stated fails at time 0 on a frame whose first sample is 1 and whose other
  samples are 0: node 0 has intensity 1, node 1 has intensity 0, they are less than 150
  apart, and the line between them is stroked.
\<close>

theorem connection_with_one_active_node:
  "(0, 1) \<in> set (neuralConnections 0 0 (1 # replicate 127 0) 0)
   \<and> intensity (createNodes 0 0 (1 # replicate 127 0) 0 ! 0) = 1
   \<and> intensity (createNodes 0 0 (1 # replicate 127 0) 0 ! 1) = 0
   \<and> \<not> intensity (createNodes 0 0 (1 # replicate 127 0) 0 ! 1) > 0.3"
proof -
  have n0: "createNodes 0 0 (1 # replicate 127 0) 0 ! 0 = Node 100 0 1"
    by (simp add: createNodes_nth sampleOr0_def)
  have n1: "createNodes 0 0 (1 # replicate 127 0) 0 ! Suc 0 =
      Node (cos (pi / 10) * (100 + sin 1 * 50)) (sin (pi / 10) * (100 + sin 1 * 50)) 0"
    using createNodes_nth[of 1 0 0 "1 # replicate 127 0" 0] by (simp add: sampleOr0_def)
  have d: "distance (Node 100 0 1)
      (Node (cos (pi / 10) * (100 + sin 1 * 50)) (sin (pi / 10) * (100 + sin 1 * 50)) 0) < 150"
    unfolding distance_def Node.sel
    using sin_1_bounds by (intro near_nodes cos_pi_10) simp_all
  have "(0, 1) \<in> set (neuralConnections 0 0 (1 # replicate 127 0) 0)"
    unfolding neuralConnections_def set_drawConnections
    by (simp add: length_createNodes connects_def n0 n1 d)
  then show ?thesis by (simp add: n0 n1)
qed

end
